theory Spec2Isabelle
  imports Complex_Main "HOL-Library.Word" "HOL-Library.Sublist"
begin

section \<open>JavaScript values\<close>

text \<open>
  A JavaScript string is a sequence of 16-bit code units; the regular expression of the
  connection (no \<open>u\<close> flag) and \<open>String.prototype.includes\<close> work on code units.
  A \<open>Buffer\<close> is a sequence of bytes. String literals of the source are written
  \<open>js ''...''\<close>.
\<close>

type_synonym jschar = "16 word"
type_synonym jsstring = "jschar list"
type_synonym bytes = "8 word list"

definition js :: "string \<Rightarrow> jsstring" where
  "js s = map of_char s"

text \<open>
  A JavaScript number, as far as the connection uses one: \<open>NaN\<close>, the two infinities, or
  a finite value. Comparisons with \<open>NaN\<close> are false.
\<close>

datatype jsnum = NaN | NegInf | Fin rat | PosInf

fun js_gt :: "jsnum \<Rightarrow> jsnum \<Rightarrow> bool" where
  "js_gt NaN y = False"
| "js_gt x NaN = False"
| "js_gt NegInf y = False"
| "js_gt (Fin a) NegInf = True"
| "js_gt (Fin a) (Fin b) = (b < a)"
| "js_gt (Fin a) PosInf = False"
| "js_gt PosInf PosInf = False"
| "js_gt PosInf y = True"

text \<open>
  \<open>String.prototype.toLowerCase\<close> on the letters A to Z. The code units outside ASCII are
  left as they are. The platform function maps two of them to something with an ASCII
  letter, the Kelvin sign to \<open>k\<close> and U+0130 to \<open>i\<close> followed by U+0307; neither can be part
  of an occurrence of \<open>gzip\<close> or \<open>deflate\<close>, which is all the connection looks for in a
  lower-cased string.
\<close>

definition lower_unit :: "jschar \<Rightarrow> jschar" where
  "lower_unit c = (if 0x41 \<le> c \<and> c \<le> 0x5A then c + 0x20 else c)"

definition toLowerCase :: "jsstring \<Rightarrow> jsstring" where
  "toLowerCase s = map lower_unit s"

text \<open>\<open>String.prototype.includes\<close>: the needle occurs as a contiguous run.\<close>

fun includes_str :: "jsstring \<Rightarrow> jsstring \<Rightarrow> bool" where
  "includes_str [] sub = (sub = [])"
| "includes_str (c # cs) sub = (prefix sub (c # cs) \<or> includes_str cs sub)"

text \<open>
  What the source takes from the runtime and not from this repository: the two size
  ceilings of module \<open>buffer\<close>, the conversion \<open>Number(...)\<close> of a string, the conversion
  of a number inside a template literal, and the strings a body stream yields for its raw
  chunks once \<open>setEncoding('utf8')\<close> was called on it.
\<close>

record platform =
  MAX_LENGTH :: nat
  MAX_STRING_LENGTH' :: nat
  Number :: "jsstring \<Rightarrow> jsnum"
  NumberToString :: "jsnum \<Rightarrow> jsstring"
  utf8_chunks :: "bytes list \<Rightarrow> jsstring list"

definition MAX_BUFFER_LENGTH :: "platform \<Rightarrow> jsnum" where
  "MAX_BUFFER_LENGTH P = Fin (of_nat (MAX_LENGTH P))"

definition MAX_STRING_LENGTH :: "platform \<Rightarrow> jsnum" where
  "MAX_STRING_LENGTH P = Fin (of_nat (MAX_STRING_LENGTH' P))"

section \<open>Errors\<close>

datatype error =
    ConfigurationError jsstring
  | RequestAbortedError jsstring
  | ConnectionError jsstring
  | TimeoutError jsstring
  | TypeError jsstring

text \<open>An error the transport rejects with: its \<open>code\<close> (absent on a plain error) and its message.\<close>

record transport_error =
  err_code :: "jsstring option"
  err_message :: jsstring

section \<open>Construction\<close>

datatype jsval = JUndefined | JNull | JBool bool | JNum jsnum | JStr jsstring | JObj nat

type_synonym jsobject = "jsstring \<rightharpoonup> jsval"

text \<open>\<open>o.k != null\<close>: the property is there and is neither \<open>null\<close> nor \<open>undefined\<close>.\<close>

definition not_nullish :: "jsobject \<Rightarrow> jsstring \<Rightarrow> bool" where
  "not_nullish obj k = (case obj k of None \<Rightarrow> False | Some v \<Rightarrow> v \<noteq> JNull \<and> v \<noteq> JUndefined)"

text \<open>\<open>opts.agent\<close>: a function, a boolean or an object of options (\<open>typeof\<close> tells them apart).\<close>

datatype agent = AgentFunction | AgentBoolean bool | AgentObject jsobject

datatype emitter = EventEmitter nat

datatype abort_controller = AbortController nat

record Pool =
  pool_url :: jsstring
  pool_options :: jsobject

text \<open>The fields that the base class keeps and this class reads.\<close>

record BaseConnection =
  url :: jsstring
  ssl :: jsval
  headers :: "jsstring \<rightharpoonup> jsstring"
  timeout :: int

record Connection = BaseConnection +
  kEmitter :: emitter
  pool :: Pool

record ConnectionOptions =
  opt_proxy :: "jsval option"
  opt_agent :: "agent option"

definition isUndiciAgentOptions :: "jsobject \<Rightarrow> bool" where
  "isUndiciAgentOptions opts =
     (if not_nullish opts (js ''keepAlive'') then False
      else if not_nullish opts (js ''keepAliveMsecs'') then False
      else if not_nullish opts (js ''maxSockets'') then False
      else if not_nullish opts (js ''maxFreeSockets'') then False
      else if not_nullish opts (js ''scheduling'') then False
      else if not_nullish opts (js ''proxy'') then False
      else True)"

definition proxy_given :: "ConnectionOptions \<Rightarrow> bool" where
  "proxy_given opts =
     (case opt_proxy opts of None \<Rightarrow> False | Some v \<Rightarrow> v \<noteq> JNull \<and> v \<noteq> JUndefined)"

definition pool_defaults :: "BaseConnection \<Rightarrow> jsobject" where
  "pool_defaults b =
     [js ''tls'' \<mapsto> ssl b,
      js ''keepAliveTimeout'' \<mapsto> JNum (Fin 4000),
      js ''keepAliveMaxTimeout'' \<mapsto> JNum (Fin 600000),
      js ''keepAliveTimeoutThreshold'' \<mapsto> JNum (Fin 1000),
      js ''pipelining'' \<mapsto> JNum (Fin 1),
      js ''maxHeaderSize'' \<mapsto> JNum (Fin 16384),
      js ''connections'' \<mapsto> JNum (Fin 256),
      js ''headersTimeout'' \<mapsto> JNum (Fin (of_int (timeout b))),
      js ''bodyTimeout'' \<mapsto> JNum (Fin (of_int (timeout b)))]"

text \<open>\<open>typeof opts.agent === 'function' || typeof opts.agent === 'boolean'\<close>\<close>

definition function_or_boolean :: "agent option \<Rightarrow> bool" where
  "function_or_boolean a =
     (case a of Some AgentFunction \<Rightarrow> True | Some (AgentBoolean v) \<Rightarrow> True | _ \<Rightarrow> False)"

text \<open>\<open>...opts.agent\<close>: spreading \<open>undefined\<close> adds nothing.\<close>

definition spread_agent :: "agent option \<Rightarrow> jsobject" where
  "spread_agent a = (case a of Some (AgentObject obj) \<Rightarrow> obj | _ \<Rightarrow> Map.empty)"

text \<open>
  The constructor. \<open>super\<close> is the constructor of the base class, which is not part of
  these sources: it either throws or yields the base fields. \<open>ref\<close> is the address the
  runtime gives the new \<open>EventEmitter\<close>. The result is the thrown error or the
  connection, and the pools that were created on the way.
\<close>

definition constructor ::
  "(ConnectionOptions \<Rightarrow> error + BaseConnection) \<Rightarrow> nat \<Rightarrow> ConnectionOptions
     \<Rightarrow> (error + Connection) \<times> Pool list" where
  "constructor super ref opts =
     (case super opts of
        Inl e \<Rightarrow> (Inl e, [])
      | Inr b \<Rightarrow>
          if proxy_given opts
          then (Inl (ConfigurationError (js ''Undici connection can't work with proxies'')), [])
          else if function_or_boolean (opt_agent opts)
          then (Inl (ConfigurationError
                  (js ''Undici connection agent options can't be a function or a boolean'')), [])
          else if (case opt_agent opts of
                     Some (AgentObject obj) \<Rightarrow> \<not> isUndiciAgentOptions obj
                   | _ \<Rightarrow> False)
          then (Inl (ConfigurationError (js ''Bad agent configuration for Undici agent'')), [])
          else
            (let p = \<lparr>pool_url = url b, pool_options = pool_defaults b ++ spread_agent (opt_agent opts)\<rparr>
             in (Inr (BaseConnection.extend b \<lparr>kEmitter = EventEmitter ref, pool = p\<rparr>), [p])))"

section \<open>Requests\<close>

text \<open>
  The parameters of one call. A timeout is a number of milliseconds, \<open>None\<close> when the call
  sets none. A caller's \<open>AbortController\<close> always has a signal, so
  \<open>params.abortController?.signal\<close> is there exactly when the controller is.
\<close>

record ConnectionRequestParams =
  http_method :: jsstring
  path :: jsstring
  querystring :: "jsstring option"
  req_headers :: "(jsstring \<rightharpoonup> jsstring) option"
  body :: "bytes option"
  req_timeout :: "int option"
  abortController :: "abort_controller option"

text \<open>
  The cancellation signal handed to the transport: the signal of the caller's
  \<open>AbortController\<close>, or the emitter of the connection.
\<close>

datatype signal = AbortSignal abort_controller | EmitterSignal emitter

record transport_request =
  rp_method :: jsstring
  rp_path :: jsstring
  rp_headers :: "jsstring \<rightharpoonup> jsstring"
  rp_body :: "bytes option"
  rp_signal :: signal

text \<open>
  The body of a transport response is a stream: the chunks it delivers, and the error it
  fails with after them, if any.
\<close>

record body_stream =
  chunks :: "bytes list"
  failure :: "transport_error option"

record response =
  r_statusCode :: nat
  r_headers :: "jsstring \<rightharpoonup> jsstring"
  r_body :: body_stream

datatype payload = is_buffer: BufferBody bytes | is_string: StringBody jsstring

record ConnectionRequestResponse =
  statusCode :: nat
  res_headers :: "jsstring \<rightharpoonup> jsstring"
  res_body :: payload

text \<open>
  What happens around one call while it waits for the transport: whether its local timer,
  if one was armed, elapses before the transport settles, and how the transport settles.
\<close>

record env =
  timer_fires :: bool
  reply :: "transport_error + response"

text \<open>What a call does, in the order in which it does it.\<close>

datatype effect =
    SetTimeout int
  | ClearTimeout
  | SetTimedOut
  | Abort abort_controller
  | EmitAbort emitter
  | Debug
  | PoolRequest transport_request
  | DiagnosticDeserialization
  | BodyDestroy
  | SetEncodingUtf8
  | BodyRead

record call =
  outcome :: "error + ConnectionRequestResponse"
  trace :: "effect list"
  timedout :: bool
  timer_pending :: bool

text \<open>\<open>INVALID_PATH_REGEX.test\<close>: some code unit of the string lies outside 0x21 to 0xFF.\<close>

definition INVALID_PATH_REGEX :: "jsstring \<Rightarrow> bool" where
  "INVALID_PATH_REGEX s = list_ex (\<lambda>ch. \<not> (0x21 \<le> ch \<and> ch \<le> 0xFF)) s"

definition requestParams :: "Connection \<Rightarrow> ConnectionRequestParams \<Rightarrow> transport_request" where
  "requestParams c p =
     \<lparr>rp_method = http_method p,
      rp_path = path p @
        (case querystring p of
           None \<Rightarrow> []
         | Some q \<Rightarrow> if q = [] then [] else js ''?'' @ q),
      rp_headers = headers c ++ (case req_headers p of None \<Rightarrow> Map.empty | Some h \<Rightarrow> h),
      rp_body = body p,
      rp_signal = (case abortController p of
                     Some a \<Rightarrow> AbortSignal a
                   | None \<Rightarrow> EmitterSignal (kEmitter c))\<rparr>"

text \<open>\<open>params.timeout != null && params.timeout !== this.timeout\<close>\<close>

definition timer_armed :: "Connection \<Rightarrow> ConnectionRequestParams \<Rightarrow> bool" where
  "timer_armed c p = (case req_timeout p of None \<Rightarrow> False | Some t \<Rightarrow> t \<noteq> timeout c)"

definition set_timer :: "Connection \<Rightarrow> ConnectionRequestParams \<Rightarrow> effect list" where
  "set_timer c p =
     (case req_timeout p of
        None \<Rightarrow> []
      | Some t \<Rightarrow> if t \<noteq> timeout c then [SetTimeout t] else [])"

text \<open>The callback given to \<open>setTimeout\<close>.\<close>

definition timeout_callback :: "Connection \<Rightarrow> ConnectionRequestParams \<Rightarrow> effect list" where
  "timeout_callback c p =
     SetTimedOut #
     (case abortController p of
        Some a \<Rightarrow> [Abort a]
      | None \<Rightarrow> [EmitAbort (kEmitter c)])"

text \<open>\<open>if (timeoutId != null) clearTimeout(timeoutId)\<close>\<close>

definition clear_timer :: "Connection \<Rightarrow> ConnectionRequestParams \<Rightarrow> effect list" where
  "clear_timer c p = (if timer_armed c p then [ClearTimeout] else [])"

text \<open>The \<open>catch\<close> block around \<open>pool.request\<close>.\<close>

definition classify :: "bool \<Rightarrow> transport_error \<Rightarrow> error" where
  "classify timed err =
     (if err_code err = Some (js ''UND_ERR_ABORTED'')
      then (if timed then TimeoutError (js ''Request timed out'')
            else RequestAbortedError (js ''Request aborted''))
      else if err_code err = Some (js ''UND_ERR_HEADERS_TIMEOUT'')
      then TimeoutError (js ''Request timed out'')
      else ConnectionError (err_message err))"

definition isCompressed :: "(jsstring \<rightharpoonup> jsstring) \<Rightarrow> bool" where
  "isCompressed hs =
     (let contentEncoding =
            toLowerCase (case hs (js ''content-encoding'') of None \<Rightarrow> [] | Some v \<Rightarrow> v)
      in includes_str contentEncoding (js ''gzip'') \<or> includes_str contentEncoding (js ''deflate''))"

definition too_big_for_buffer :: "platform \<Rightarrow> jsnum \<Rightarrow> jsstring" where
  "too_big_for_buffer P contentLength =
     js ''The content length ('' @ NumberToString P contentLength @
     js '') is bigger than the maximum allowed buffer ('' @
     NumberToString P (MAX_BUFFER_LENGTH P) @ js '')''"

definition too_big_for_string :: "platform \<Rightarrow> jsnum \<Rightarrow> jsstring" where
  "too_big_for_string P contentLength =
     js ''The content length ('' @ NumberToString P contentLength @
     js '') is bigger than the maximum allowed string ('' @
     NumberToString P (MAX_STRING_LENGTH P) @ js '')''"

text \<open>The check of the declared length: the error it throws, if it throws.\<close>

definition check_content_length :: "platform \<Rightarrow> (jsstring \<rightharpoonup> jsstring) \<Rightarrow> error option" where
  "check_content_length P hs =
     (case hs (js ''content-length'') of
        None \<Rightarrow> None
      | Some v \<Rightarrow>
          (let contentLength = Number P v in
           if isCompressed hs \<and> js_gt contentLength (MAX_BUFFER_LENGTH P)
           then Some (RequestAbortedError (too_big_for_buffer P contentLength))
           else if js_gt contentLength (MAX_STRING_LENGTH P)
           then Some (RequestAbortedError (too_big_for_string P contentLength))
           else None))"

text \<open>The two loops over the body: \<open>payload.push(chunk)\<close> and \<open>payload += chunk\<close>.\<close>

fun push_chunks :: "bytes list \<Rightarrow> bytes list \<Rightarrow> bytes list" where
  "push_chunks payload [] = payload"
| "push_chunks payload (chunk # rest) = push_chunks (payload @ [chunk]) rest"

fun append_chunks :: "jsstring \<Rightarrow> jsstring list \<Rightarrow> jsstring" where
  "append_chunks payload [] = payload"
| "append_chunks payload (chunk # rest) = append_chunks (payload @ chunk) rest"

text \<open>
  The \<open>try\<close> block that reads the body: what it returns or throws, and what it does to
  the stream. \<open>Buffer.concat\<close> is \<open>concat\<close>.
\<close>

definition read_body :: "platform \<Rightarrow> response \<Rightarrow> error + ConnectionRequestResponse" where
  "read_body P r =
     (case failure (r_body r) of
        Some err \<Rightarrow> Inl (ConnectionError (err_message err))
      | None \<Rightarrow>
          if isCompressed (r_headers r)
          then Inr \<lparr>statusCode = r_statusCode r, res_headers = r_headers r,
                    res_body = BufferBody (concat (push_chunks [] (chunks (r_body r))))\<rparr>
          else Inr \<lparr>statusCode = r_statusCode r, res_headers = r_headers r,
                    res_body = StringBody (append_chunks [] (utf8_chunks P (chunks (r_body r))))\<rparr>)"

definition read_trace :: "platform \<Rightarrow> response \<Rightarrow> effect list" where
  "read_trace P r =
     (if isCompressed (r_headers r)
      then replicate (length (chunks (r_body r))) BodyRead
      else SetEncodingUtf8 # replicate (length (utf8_chunks P (chunks (r_body r)))) BodyRead)"

text \<open>Everything after \<open>pool.request\<close> has resolved and the timer was cleared.\<close>

definition on_response :: "platform \<Rightarrow> response \<Rightarrow> (error + ConnectionRequestResponse) \<times> effect list" where
  "on_response P r =
     (case check_content_length P (r_headers r) of
        Some e \<Rightarrow> (Inl e, [BodyDestroy])
      | None \<Rightarrow> (read_body P r, DiagnosticDeserialization # read_trace P r))"

text \<open>
  \<open>request\<close>. The call builds the request for the transport, arms the timer, tests the
  path and throws if it is malformed (the timer, if armed, stays pending). Otherwise it
  hands the request to \<open>pool.request\<close> and waits; this is the only place where the timer can
  elapse, since the call clears it as soon as the transport settles, and when it elapses
  its callback runs before the call goes on. A rejection is classified; a response is
  checked and read.
\<close>

definition request :: "platform \<Rightarrow> Connection \<Rightarrow> ConnectionRequestParams \<Rightarrow> env \<Rightarrow> call" where
  "request P c p e =
     (let rp = requestParams c p in
      if INVALID_PATH_REGEX (rp_path rp)
      then \<lparr>outcome = Inl (TypeError (js ''ERR_UNESCAPED_CHARACTERS: '' @ rp_path rp)),
            trace = set_timer c p, timedout = False, timer_pending = timer_armed c p\<rparr>
      else
        (let fired = (timer_armed c p \<and> timer_fires e);
             t = set_timer c p @ [Debug, PoolRequest rp] @
                 (if fired then timeout_callback c p else []) @ clear_timer c p
         in case reply e of
              Inl err \<Rightarrow>
                \<lparr>outcome = Inl (classify fired err), trace = t,
                 timedout = fired, timer_pending = False\<rparr>
            | Inr r \<Rightarrow>
                \<lparr>outcome = fst (on_response P r), trace = t @ snd (on_response P r),
                 timedout = fired, timer_pending = False\<rparr>))"

text \<open>A timer that is still pending when the call is over elapses and runs its callback.\<close>

definition pending_timer_elapses :: "Connection \<Rightarrow> ConnectionRequestParams \<Rightarrow> call \<Rightarrow> effect list" where
  "pending_timer_elapses c p r = (if timer_pending r then timeout_callback c p else [])"

section \<open>Reading a call\<close>

text \<open>The requests a call hands to the transport.\<close>

fun pool_requests :: "effect list \<Rightarrow> transport_request list" where
  "pool_requests [] = []"
| "pool_requests (PoolRequest rp # t) = rp # pool_requests t"
| "pool_requests (x # t) = pool_requests t"

text \<open>The cancellation the timer callback triggers after it has marked the call.\<close>

definition cancel_effect :: "Connection \<Rightarrow> ConnectionRequestParams \<Rightarrow> effect" where
  "cancel_effect c p =
     (case abortController p of Some a \<Rightarrow> Abort a | None \<Rightarrow> EmitAbort (kEmitter c))"

text \<open>What a call with a well-formed path has done when the transport settles.\<close>

definition settled_trace :: "Connection \<Rightarrow> ConnectionRequestParams \<Rightarrow> env \<Rightarrow> effect list" where
  "settled_trace c p e =
     set_timer c p @ [Debug, PoolRequest (requestParams c p)] @
     (if timer_armed c p \<and> timer_fires e then timeout_callback c p else []) @ clear_timer c p"

text \<open>
  The failure the transport reports to a call, in either phase: \<open>pool.request\<close> rejects,
  or the body stream fails while it is read.
\<close>

definition transport_failure :: "env \<Rightarrow> transport_error option" where
  "transport_failure e = (case reply e of Inl err \<Rightarrow> Some err | Inr r \<Rightarrow> failure (r_body r))"

text \<open>
  An effect triggers a signal: \<open>abort()\<close> on a controller triggers that controller's
  signal, and \<open>emit('abort')\<close> on an emitter reaches every listener of that emitter.
\<close>

fun triggers :: "effect \<Rightarrow> signal \<Rightarrow> bool" where
  "triggers (Abort a) (AbortSignal b) = (a = b)"
| "triggers (EmitAbort x) (EmitterSignal y) = (x = y)"
| "triggers f s = False"

text \<open>The timers a call arms, with their durations.\<close>

fun timers_set :: "effect list \<Rightarrow> int list" where
  "timers_set [] = []"
| "timers_set (SetTimeout d # t) = d # timers_set t"
| "timers_set (x # t) = timers_set t"

text \<open>What the timer callback does, where it ran: the mark and the cancellation.\<close>

fun cancellations :: "effect list \<Rightarrow> effect list" where
  "cancellations [] = []"
| "cancellations (SetTimedOut # t) = SetTimedOut # cancellations t"
| "cancellations (Abort a # t) = Abort a # cancellations t"
| "cancellations (EmitAbort x # t) = EmitAbort x # cancellations t"
| "cancellations (x # t) = cancellations t"

text \<open>How often a call uses the body stream (sets its encoding or takes a chunk from it).\<close>

fun body_reads :: "effect list \<Rightarrow> nat" where
  "body_reads [] = 0"
| "body_reads (BodyRead # t) = Suc (body_reads t)"
| "body_reads (SetEncodingUtf8 # t) = Suc (body_reads t)"
| "body_reads (x # t) = body_reads t"

text \<open>How often a call destroys the body stream.\<close>

fun body_destroys :: "effect list \<Rightarrow> nat" where
  "body_destroys [] = 0"
| "body_destroys (BodyDestroy # t) = Suc (body_destroys t)"
| "body_destroys (x # t) = body_destroys t"

text \<open>The response without its declared length.\<close>

definition without_length :: "env \<Rightarrow> env" where
  "without_length e =
     (case reply e of
        Inl err \<Rightarrow> e
      | Inr r \<Rightarrow> e\<lparr>reply := Inr (r\<lparr>r_headers := (r_headers r)(js ''content-length'' := None)\<rparr>)\<rparr>)"

text \<open>What a call gives back apart from the headers: the error, or the status and the body.\<close>

definition status_and_body :: "call \<Rightarrow> error + nat \<times> payload" where
  "status_and_body x =
     (case outcome x of Inl err \<Rightarrow> Inl err | Inr out \<Rightarrow> Inr (statusCode out, res_body out))"

text \<open>An object of options gives a value to an option that belongs to another kind of connection.\<close>

definition reserved_given :: "jsobject \<Rightarrow> bool" where
  "reserved_given obj =
     (not_nullish obj (js ''keepAlive'') \<or> not_nullish obj (js ''keepAliveMsecs'') \<or>
      not_nullish obj (js ''maxSockets'') \<or> not_nullish obj (js ''maxFreeSockets'') \<or>
      not_nullish obj (js ''scheduling'') \<or> not_nullish obj (js ''proxy''))"

section \<open>Example inputs\<close>

text \<open>
  A platform for the examples: the ceilings of a 64-bit runtime (2 to the 32, and 2 to the
  29 less 24), \<open>Number\<close> on the empty string and on strings of decimal digits (every other
  string is \<open>NaN\<close> here; the examples apply it to short strings of digits and to \<open>abc\<close>
  only), the natural numbers printed in decimal, and a decoder for chunks of ASCII bytes.
\<close>

fun read_digits :: "nat \<Rightarrow> jsstring \<Rightarrow> nat option" where
  "read_digits acc [] = Some acc"
| "read_digits acc (ch # cs) =
     (if 0x30 \<le> ch \<and> ch \<le> 0x39 then read_digits (10 * acc + (unat ch - 48)) cs else None)"

definition digits_Number :: "jsstring \<Rightarrow> jsnum" where
  "digits_Number s = (case read_digits 0 s of Some n \<Rightarrow> Fin (of_nat n) | None \<Rightarrow> NaN)"

fun decimal :: "nat \<Rightarrow> jsstring" where
  "decimal n =
     (if n < 10 then [of_nat (48 + n)] else decimal (n div 10) @ [of_nat (48 + n mod 10)])"

declare decimal.simps [simp del]

definition decimal_NumberToString :: "jsnum \<Rightarrow> jsstring" where
  "decimal_NumberToString x =
     (case x of
        NaN \<Rightarrow> js ''NaN''
      | NegInf \<Rightarrow> js ''-Infinity''
      | PosInf \<Rightarrow> js ''Infinity''
      | Fin q \<Rightarrow> decimal (nat \<lfloor>q\<rfloor>))"

definition node64 :: platform where
  "node64 =
     \<lparr>MAX_LENGTH = 4294967296, MAX_STRING_LENGTH' = 536870888,
      Number = digits_Number, NumberToString = decimal_NumberToString,
      utf8_chunks = map (map ucast)\<rparr>"

definition node_base :: BaseConnection where
  "node_base =
     \<lparr>url = js ''http://localhost:9200/'', ssl = JNull,
      headers = [js ''accept'' \<mapsto> js ''application/json'', js ''x-node'' \<mapsto> js ''a''],
      timeout = 1000\<rparr>"

text \<open>A base class whose constructor returns, and the connection built on it at address 7.\<close>

definition node_super :: "ConnectionOptions \<Rightarrow> error + BaseConnection" where
  "node_super opts = Inr node_base"

definition node_conn :: Connection where
  "node_conn =
     \<lparr>url = js ''http://localhost:9200/'', ssl = JNull,
      headers = [js ''accept'' \<mapsto> js ''application/json'', js ''x-node'' \<mapsto> js ''a''],
      timeout = 1000, kEmitter = EventEmitter 7,
      pool = \<lparr>pool_url = js ''http://localhost:9200/'',
              pool_options = pool_defaults node_base ++ [js ''connections'' \<mapsto> JNum (Fin 10)]\<rparr>\<rparr>"

definition search :: ConnectionRequestParams where
  "search =
     \<lparr>http_method = js ''GET'', path = js ''/_search'', querystring = None, req_headers = None,
      body = None, req_timeout = None, abortController = None\<rparr>"

text \<open>A body of eleven bytes, delivered in two chunks with status 200 and given headers.\<close>

definition ok_body :: bytes where
  "ok_body = [0x7B, 0x22, 0x6F, 0x6B, 0x22, 0x3A, 0x74, 0x72, 0x75, 0x65, 0x7D]"

definition aborted :: transport_error where
  "aborted = \<lparr>err_code = Some (js ''UND_ERR_ABORTED''), err_message = js ''Request aborted''\<rparr>"

definition abort_while_reading :: env where
  "abort_while_reading =
     \<lparr>timer_fires = False,
      reply = Inr \<lparr>r_statusCode = 200, r_headers = Map.empty,
                   r_body = \<lparr>chunks = [take 5 ok_body], failure = Some aborted\<rparr>\<rparr>\<rparr>"

definition spaced :: ConnectionRequestParams where
  "spaced = search\<lparr>path := js ''/my index/_search'', req_timeout := Some 50\<rparr>"

definition queried :: ConnectionRequestParams where
  "queried =
     search\<lparr>querystring := Some (js ''q=1''),
            req_headers := Some [js ''x-node'' \<mapsto> js ''b'', js ''x-id'' \<mapsto> js ''9'']\<rparr>"

definition hurried :: ConnectionRequestParams where
  "hurried = search\<lparr>req_timeout := Some 50\<rparr>"

definition controlled :: ConnectionRequestParams where
  "controlled = search\<lparr>req_timeout := Some 50, abortController := Some (AbortController 3)\<rparr>"

definition timed_out_env :: env where
  "timed_out_env = \<lparr>timer_fires = True, reply = Inl aborted\<rparr>"

definition refused :: transport_error where
  "refused = \<lparr>err_code = Some (js ''ECONNREFUSED''), err_message = js ''connect ECONNREFUSED''\<rparr>"

definition headers_timeout :: transport_error where
  "headers_timeout =
     \<lparr>err_code = Some (js ''UND_ERR_HEADERS_TIMEOUT''), err_message = js ''Headers Timeout Error''\<rparr>"

definition rejecting :: "transport_error \<Rightarrow> env" where
  "rejecting err = \<lparr>timer_fires = False, reply = Inl err\<rparr>"

definition answer :: "(jsstring \<rightharpoonup> jsstring) \<Rightarrow> response" where
  "answer hs =
     \<lparr>r_statusCode = 200, r_headers = hs,
      r_body = \<lparr>chunks = [take 5 ok_body, drop 5 ok_body], failure = None\<rparr>\<rparr>"

definition answering :: "(jsstring \<rightharpoonup> jsstring) \<Rightarrow> env" where
  "answering hs = \<lparr>timer_fires = False, reply = Inr (answer hs)\<rparr>"

definition gzip_huge :: "jsstring \<rightharpoonup> jsstring" where
  "gzip_huge = [js ''content-encoding'' \<mapsto> js ''gzip'', js ''content-length'' \<mapsto> js ''4294967297'']"

definition gzip_long :: "jsstring \<rightharpoonup> jsstring" where
  "gzip_long = [js ''content-encoding'' \<mapsto> js ''GZIP'', js ''content-length'' \<mapsto> js ''600000000'']"

definition text_long :: "jsstring \<rightharpoonup> jsstring" where
  "text_long = [js ''content-length'' \<mapsto> js ''600000000'']"

definition text_huge :: "jsstring \<rightharpoonup> jsstring" where
  "text_huge = [js ''content-length'' \<mapsto> js ''4294967297'']"

definition text_short :: "jsstring \<rightharpoonup> jsstring" where
  "text_short = [js ''content-length'' \<mapsto> js ''11'']"

definition text_odd :: "jsstring \<rightharpoonup> jsstring" where
  "text_odd = [js ''content-length'' \<mapsto> js ''abc'']"

definition ok_env :: env where
  "ok_env = answering text_short"

definition gzip_short :: "jsstring \<rightharpoonup> jsstring" where
  "gzip_short = [js ''content-encoding'' \<mapsto> js ''x-GZip'', js ''content-length'' \<mapsto> js ''11'']"

text \<open>Options for the constructor: plain ones, and ones meant for another kind of connection.\<close>

definition plain_options :: ConnectionOptions where
  "plain_options =
     \<lparr>opt_proxy = None, opt_agent = Some (AgentObject [js ''connections'' \<mapsto> JNum (Fin 10)])\<rparr>"

definition proxy_options :: ConnectionOptions where
  "proxy_options = \<lparr>opt_proxy = Some (JStr (js ''http://proxy:8080'')), opt_agent = None\<rparr>"

definition function_options :: ConnectionOptions where
  "function_options = \<lparr>opt_proxy = None, opt_agent = Some AgentFunction\<rparr>"

definition http_agent_options :: ConnectionOptions where
  "http_agent_options =
     \<lparr>opt_proxy = None, opt_agent = Some (AgentObject [js ''keepAlive'' \<mapsto> JBool True])\<rparr>"

text \<open>Two calls on one connection, neither with a controller: one in a hurry, one not.\<close>

definition bystander :: ConnectionRequestParams where
  "bystander = search\<lparr>path := js ''/_bulk'', http_method := js ''POST''\<rparr>"

section \<open>Strings and loops\<close>

lemma of_char_inj16: "(of_char a :: 16 word) = of_char b \<longleftrightarrow> a = b"
proof
  assume h: "(of_char a :: 16 word) = of_char b"
  have "(of_nat (of_char a) :: 16 word) = of_nat (of_char b)"
    using h by (simp only: of_nat_of_char)
  then have "take_bit 16 (of_char a :: nat) = take_bit 16 (of_char b :: nat)"
    by (simp add: word_of_nat_eq_iff)
  moreover have "take_bit 16 (of_char a :: nat) = of_char a"
    and "take_bit 16 (of_char b :: nat) = of_char b"
    by (simp_all add: take_bit_nat_eq_self_iff order_less_trans [OF nat_of_char_less_256])
  ultimately show "a = b" by simp
qed simp

lemma js_eq_iff: "js a = js b \<longleftrightarrow> a = b"
  unfolding js_def by (simp add: inj_map_eq_map inj_def of_char_inj16)

lemma js_append: "js (a @ b) = js a @ js b"
  by (simp add: js_def)

lemma includes_str_sublist: "includes_str s sub \<longleftrightarrow> sublist sub s"
  by (induction s) (simp_all add: sublist_Cons_right)

lemma push_chunks_concat: "concat (push_chunks acc cs) = concat acc @ concat cs"
  by (induction cs arbitrary: acc) auto

lemma append_chunks_concat: "append_chunks acc cs = acc @ concat cs"
  by (induction cs arbitrary: acc) auto

lemma INVALID_PATH_REGEX_iff:
  "INVALID_PATH_REGEX s \<longleftrightarrow> (\<exists>ch \<in> set s. ch < 0x21 \<or> 0xFF < ch)"
  by (auto simp: INVALID_PATH_REGEX_def list_ex_iff not_le)

section \<open>The three ways a call ends\<close>

lemma request_invalid:
  "INVALID_PATH_REGEX (rp_path (requestParams c p)) \<Longrightarrow>
   request P c p e =
     \<lparr>outcome = Inl (TypeError (js ''ERR_UNESCAPED_CHARACTERS: '' @ rp_path (requestParams c p))),
      trace = set_timer c p, timedout = False, timer_pending = timer_armed c p\<rparr>"
  by (simp add: request_def)

lemma request_rejected:
  "\<not> INVALID_PATH_REGEX (rp_path (requestParams c p)) \<Longrightarrow> reply e = Inl err \<Longrightarrow>
   request P c p e =
     \<lparr>outcome = Inl (classify (timer_armed c p \<and> timer_fires e) err),
      trace = settled_trace c p e,
      timedout = (timer_armed c p \<and> timer_fires e), timer_pending = False\<rparr>"
  by (simp add: request_def settled_trace_def Let_def)

lemma request_resolved:
  "\<not> INVALID_PATH_REGEX (rp_path (requestParams c p)) \<Longrightarrow> reply e = Inr r \<Longrightarrow>
   request P c p e =
     \<lparr>outcome = fst (on_response P r),
      trace = settled_trace c p e @ snd (on_response P r),
      timedout = (timer_armed c p \<and> timer_fires e), timer_pending = False\<rparr>"
  by (simp add: request_def settled_trace_def Let_def)

lemma trace_request:
  "trace (request P c p e) =
     (if INVALID_PATH_REGEX (rp_path (requestParams c p)) then set_timer c p
      else settled_trace c p e @ (case reply e of Inl err \<Rightarrow> [] | Inr r \<Rightarrow> snd (on_response P r)))"
  by (cases "reply e") (simp_all add: request_invalid request_rejected request_resolved)

lemma timedout_request:
  "timedout (request P c p e) =
     (\<not> INVALID_PATH_REGEX (rp_path (requestParams c p)) \<and> timer_armed c p \<and> timer_fires e)"
  by (cases "INVALID_PATH_REGEX (rp_path (requestParams c p))"; cases "reply e")
    (simp_all add: request_invalid request_rejected request_resolved)

lemma timer_pending_request:
  "timer_pending (request P c p e) =
     (INVALID_PATH_REGEX (rp_path (requestParams c p)) \<and> timer_armed c p)"
  by (cases "INVALID_PATH_REGEX (rp_path (requestParams c p))"; cases "reply e")
    (simp_all add: request_invalid request_rejected request_resolved)

lemma on_response_too_big:
  "check_content_length P (r_headers r) = Some err \<Longrightarrow> on_response P r = (Inl err, [BodyDestroy])"
  by (simp add: on_response_def)

lemma on_response_passes:
  "check_content_length P (r_headers r) = None \<Longrightarrow>
   on_response P r = (read_body P r, DiagnosticDeserialization # read_trace P r)"
  by (simp add: on_response_def)

lemma check_content_length_cases:
  "hs (js ''content-length'') = Some v \<Longrightarrow>
   check_content_length P hs =
     (if isCompressed hs \<and> js_gt (Number P v) (MAX_BUFFER_LENGTH P)
      then Some (RequestAbortedError (too_big_for_buffer P (Number P v)))
      else if js_gt (Number P v) (MAX_STRING_LENGTH P)
      then Some (RequestAbortedError (too_big_for_string P (Number P v)))
      else None)"
  by (simp add: check_content_length_def Let_def)

lemma js_gt_mono: "js_gt x (Fin a) \<Longrightarrow> b \<le> a \<Longrightarrow> js_gt x (Fin b)"
  by (cases x) auto

lemma ceilings_ordered:
  "MAX_STRING_LENGTH' P \<le> MAX_LENGTH P \<Longrightarrow> js_gt x (MAX_BUFFER_LENGTH P) \<Longrightarrow>
   js_gt x (MAX_STRING_LENGTH P)"
  by (simp add: MAX_BUFFER_LENGTH_def MAX_STRING_LENGTH_def js_gt_mono [where a = "of_nat (MAX_LENGTH P)"])

lemma classify_cases:
  "classify timed err =
     (if err_code err = Some (js ''UND_ERR_ABORTED'') \<and> timed
      then TimeoutError (js ''Request timed out'')
      else if err_code err = Some (js ''UND_ERR_ABORTED'')
      then RequestAbortedError (js ''Request aborted'')
      else if err_code err = Some (js ''UND_ERR_HEADERS_TIMEOUT'')
      then TimeoutError (js ''Request timed out'')
      else ConnectionError (err_message err))"
  by (simp add: classify_def)

lemma read_body_failure:
  "failure (r_body r) = Some err \<Longrightarrow> read_body P r = Inl (ConnectionError (err_message err))"
  by (simp add: read_body_def)

section \<open>Counting effects\<close>

lemma pool_requests_append: "pool_requests (xs @ ys) = pool_requests xs @ pool_requests ys"
  by (induction xs rule: pool_requests.induct) simp_all

lemma pool_requests_replicate: "pool_requests (replicate n BodyRead) = []"
  by (induction n) simp_all

lemma pool_requests_set_timer: "pool_requests (set_timer c p) = []"
  by (simp add: set_timer_def split: option.splits)

lemma pool_requests_callback: "pool_requests (timeout_callback c p) = []"
  by (simp add: timeout_callback_def split: option.splits)

lemma pool_requests_clear: "pool_requests (clear_timer c p) = []"
  by (simp add: clear_timer_def)

lemma pool_requests_response: "pool_requests (snd (on_response P r)) = []"
  by (simp add: on_response_def read_trace_def pool_requests_replicate split: option.splits)

lemma pool_requests_settled: "pool_requests (settled_trace c p e) = [requestParams c p]"
  by (simp add: settled_trace_def pool_requests_append pool_requests_set_timer
      pool_requests_callback pool_requests_clear)

lemma pool_requests_request:
  "pool_requests (trace (request P c p e)) =
     (if INVALID_PATH_REGEX (rp_path (requestParams c p)) then [] else [requestParams c p])"
  by (simp add: trace_request pool_requests_set_timer pool_requests_append
      pool_requests_settled pool_requests_response split: sum.splits)

lemma cancellations_append: "cancellations (xs @ ys) = cancellations xs @ cancellations ys"
  by (induction xs rule: cancellations.induct) simp_all

lemma cancellations_replicate: "cancellations (replicate n BodyRead) = []"
  by (induction n) simp_all

lemma cancellations_set_timer: "cancellations (set_timer c p) = []"
  by (simp add: set_timer_def split: option.splits)

lemma cancellations_clear: "cancellations (clear_timer c p) = []"
  by (simp add: clear_timer_def)

lemma cancellations_callback:
  "cancellations (timeout_callback c p) = [SetTimedOut, cancel_effect c p]"
  by (simp add: timeout_callback_def cancel_effect_def split: option.splits)

lemma cancellations_response: "cancellations (snd (on_response P r)) = []"
  by (simp add: on_response_def read_trace_def cancellations_replicate split: option.splits)

lemma cancellations_request:
  "cancellations (trace (request P c p e)) =
     (if timedout (request P c p e) then [SetTimedOut, cancel_effect c p] else [])"
  by (simp add: trace_request timedout_request settled_trace_def cancellations_append
      cancellations_set_timer cancellations_clear cancellations_callback cancellations_response
      split: sum.splits)

lemma timers_set_append: "timers_set (xs @ ys) = timers_set xs @ timers_set ys"
  by (induction xs rule: timers_set.induct) simp_all

lemma timers_set_replicate: "timers_set (replicate n BodyRead) = []"
  by (induction n) simp_all

lemma timers_set_set_timer:
  "timers_set (set_timer c p) =
     (case req_timeout p of None \<Rightarrow> [] | Some d \<Rightarrow> if d \<noteq> timeout c then [d] else [])"
  by (simp add: set_timer_def split: option.splits)

lemma timers_set_request:
  "timers_set (trace (request P c p e)) =
     (case req_timeout p of None \<Rightarrow> [] | Some d \<Rightarrow> if d \<noteq> timeout c then [d] else [])"
  by (simp add: trace_request settled_trace_def timers_set_append timers_set_set_timer
      timeout_callback_def clear_timer_def on_response_def read_trace_def timers_set_replicate
      split: sum.splits option.splits)

lemma body_reads_append: "body_reads (xs @ ys) = body_reads xs + body_reads ys"
  by (induction xs rule: body_reads.induct) simp_all

lemma body_destroys_append: "body_destroys (xs @ ys) = body_destroys xs + body_destroys ys"
  by (induction xs rule: body_destroys.induct) simp_all

lemma body_reads_settled: "body_reads (settled_trace c p e) = 0"
  by (simp add: settled_trace_def body_reads_append set_timer_def timeout_callback_def
      clear_timer_def split: option.splits)

lemma body_destroys_settled: "body_destroys (settled_trace c p e) = 0"
  by (simp add: settled_trace_def body_destroys_append set_timer_def timeout_callback_def
      clear_timer_def split: option.splits)

lemma body_destroys_replicate: "body_destroys (replicate n BodyRead) = 0"
  by (induction n) simp_all

lemma body_destroys_read_trace: "body_destroys (read_trace P r) = 0"
  by (simp add: read_trace_def body_destroys_replicate)

lemma search_valid: "\<not> INVALID_PATH_REGEX (rp_path (requestParams node_conn search))"
  by (simp add: requestParams_def search_def INVALID_PATH_REGEX_def js_def)

section \<open>The example inputs evaluated\<close>

lemma node_conn_built: "fst (constructor node_super 7 plain_options) = Inr node_conn"
  by (simp add: constructor_def node_super_def plain_options_def proxy_given_def
      function_or_boolean_def isUndiciAgentOptions_def not_nullish_def js_eq_iff spread_agent_def
      BaseConnection.defs node_base_def node_conn_def Let_def)

lemma hurried_valid: "\<not> INVALID_PATH_REGEX (rp_path (requestParams node_conn hurried))"
  by (simp add: requestParams_def hurried_def search_def INVALID_PATH_REGEX_def js_def)

lemma MAX_BUFFER_LENGTH_node64: "MAX_BUFFER_LENGTH node64 = Fin 4294967296"
  by (simp add: MAX_BUFFER_LENGTH_def node64_def)

lemma MAX_STRING_LENGTH_node64: "MAX_STRING_LENGTH node64 = Fin 536870888"
  by (simp add: MAX_STRING_LENGTH_def node64_def)

lemma Number_node64: "Number node64 = digits_Number" "NumberToString node64 = decimal_NumberToString"
  by (simp_all add: node64_def)

lemma digits_examples:
  "digits_Number (js ''4294967297'') = Fin 4294967297"
  "digits_Number (js ''600000000'') = Fin 600000000"
  "digits_Number (js ''11'') = Fin 11"
  "digits_Number (js ''abc'') = NaN"
  by (simp_all add: digits_Number_def js_def)

lemma decimal_examples:
  "decimal_NumberToString (Fin 4294967297) = js ''4294967297''"
  "decimal_NumberToString (Fin 4294967296) = js ''4294967296''"
  "decimal_NumberToString (Fin 600000000) = js ''600000000''"
  "decimal_NumberToString (Fin 536870888) = js ''536870888''"
  by (simp_all add: decimal_NumberToString_def decimal.simps js_def)

lemma isCompressed_examples:
  "isCompressed gzip_huge" "isCompressed gzip_long" "\<not> isCompressed text_long"
  "\<not> isCompressed text_short" "\<not> isCompressed text_odd"
  by (simp_all add: isCompressed_def gzip_huge_def gzip_long_def text_long_def text_short_def
      text_odd_def js_eq_iff)
    (simp_all add: js_def toLowerCase_def lower_unit_def)

lemma length_examples:
  "gzip_huge (js ''content-length'') = Some (js ''4294967297'')"
  "gzip_long (js ''content-length'') = Some (js ''600000000'')"
  "text_long (js ''content-length'') = Some (js ''600000000'')"
  "text_short (js ''content-length'') = Some (js ''11'')"
  "text_odd (js ''content-length'') = Some (js ''abc'')"
  "text_huge (js ''content-length'') = Some (js ''4294967297'')"
  by (simp_all add: gzip_huge_def gzip_long_def text_long_def text_short_def text_odd_def
      text_huge_def)

lemma answer_sel:
  "r_headers (answer hs) = hs" "r_statusCode (answer hs) = 200"
  "failure (r_body (answer hs)) = None"
  "chunks (r_body (answer hs)) = [take 5 ok_body, drop 5 ok_body]"
  by (simp_all add: answer_def)

lemma answering_sel: "reply (answering hs) = Inr (answer hs)" "timer_fires (answering hs) = False"
  by (simp_all add: answering_def)

section \<open>The declared length and the encoding\<close>

lemma isCompressed_without_length:
  "isCompressed (hs(js ''content-length'' := None)) = isCompressed hs"
  by (simp add: isCompressed_def js_eq_iff)

lemma check_content_length_absent:
  "hs (js ''content-length'') = None \<Longrightarrow> check_content_length P hs = None"
  by (simp add: check_content_length_def)

lemma check_content_length_NaN:
  "hs (js ''content-length'') = Some v \<Longrightarrow> Number P v = NaN \<Longrightarrow> check_content_length P hs = None"
  by (simp add: check_content_length_def)

lemma read_trace_without_length:
  "read_trace P (r\<lparr>r_headers := (r_headers r)(js ''content-length'' := None)\<rparr>) = read_trace P r"
  by (simp add: read_trace_def isCompressed_without_length)

lemma settled_trace_reply: "settled_trace c p (e\<lparr>reply := x\<rparr>) = settled_trace c p e"
  by (simp add: settled_trace_def)

lemma sublist_map_right: "sublist x (map f ys) \<longleftrightarrow> (\<exists>w. sublist w ys \<and> map f w = x)"
proof
  assume "sublist x (map f ys)"
  then obtain ps ss where e: "map f ys = ps @ x @ ss"
    by (auto simp: sublist_def)
  define w where "w = take (length x) (drop (length ps) ys)"
  have "map f w = take (length x) (drop (length ps) (map f ys))"
    by (simp add: w_def take_map drop_map)
  then have m: "map f w = x"
    by (simp add: e)
  have whole: "take (length ps) ys @ w @ drop (length x) (drop (length ps) ys) = ys"
    by (simp only: w_def append_take_drop_id)
  have "sublist w (take (length ps) ys @ w @ drop (length x) (drop (length ps) ys))"
    by (rule sublist_appendI)
  then have "sublist w ys"
    by (simp only: whole)
  then show "\<exists>w. sublist w ys \<and> map f w = x"
    using m by blast
next
  assume "\<exists>w. sublist w ys \<and> map f w = x"
  then obtain w ps ss where "ys = ps @ w @ ss" and "map f w = x"
    by (auto simp: sublist_def)
  then have "map f ys = map f ps @ x @ map f ss"
    by simp
  then show "sublist x (map f ys)"
    by (simp only: sublist_appendI)
qed

lemma needles_not_empty: "js ''gzip'' \<noteq> []" "js ''deflate'' \<noteq> []"
  by (simp_all add: js_def)

lemma isCompressed_iff:
  "isCompressed hs \<longleftrightarrow>
     (\<exists>enc w. hs (js ''content-encoding'') = Some enc \<and> sublist w enc \<and>
        (toLowerCase w = js ''gzip'' \<or> toLowerCase w = js ''deflate''))"
proof (cases "hs (js ''content-encoding'')")
  case None
  then show ?thesis
    by (simp add: isCompressed_def toLowerCase_def needles_not_empty)
next
  case (Some enc)
  then show ?thesis
    by (auto simp: isCompressed_def toLowerCase_def includes_str_sublist sublist_map_right)
qed

lemma read_body_complete:
  "failure (r_body r) = None \<Longrightarrow>
   read_body P r =
     Inr \<lparr>statusCode = r_statusCode r, res_headers = r_headers r,
          res_body = (if isCompressed (r_headers r)
                      then BufferBody (concat (chunks (r_body r)))
                      else StringBody (concat (utf8_chunks P (chunks (r_body r)))))\<rparr>"
  by (simp add: read_body_def push_chunks_concat append_chunks_concat)

lemma read_body_Inr: "read_body P r = Inr out \<Longrightarrow> failure (r_body r) = None"
  by (simp add: read_body_def split: option.splits)

lemma on_response_Inr:
  "fst (on_response P r) = Inr out \<longleftrightarrow>
     check_content_length P (r_headers r) = None \<and> read_body P r = Inr out"
  by (simp add: on_response_def split: option.splits)

lemma outcome_Inr:
  "outcome (request P c p e) = Inr out \<longleftrightarrow>
     \<not> INVALID_PATH_REGEX (rp_path (requestParams c p)) \<and>
     (\<exists>r. reply e = Inr r \<and> check_content_length P (r_headers r) = None \<and>
          read_body P r = Inr out)"
  by (cases "INVALID_PATH_REGEX (rp_path (requestParams c p))"; cases "reply e")
    (simp_all add: request_invalid request_rejected request_resolved on_response_Inr)

lemma isUndiciAgentOptions_iff: "isUndiciAgentOptions obj \<longleftrightarrow> \<not> reserved_given obj"
  by (simp add: isUndiciAgentOptions_def reserved_given_def)

section \<open>Signals\<close>

lemma list_ex_append_iff: "list_ex Q (xs @ ys) \<longleftrightarrow> list_ex Q xs \<or> list_ex Q ys"
  by (auto simp: list_ex_iff)

lemma emitter_shared:
  assumes "abortController p = None" and "abortController q = None"
    and "timer_armed c p" and "timer_fires e"
    and "\<not> INVALID_PATH_REGEX (rp_path (requestParams c p))"
  shows "list_ex (\<lambda>x. triggers x (rp_signal (requestParams c q))) (trace (request P c p e))"
  using assms
  by (simp add: trace_request settled_trace_def timeout_callback_def requestParams_def
      list_ex_append_iff)

lemma triggers_cancellations:
  "list_ex (\<lambda>x. triggers x s) t = list_ex (\<lambda>x. triggers x s) (cancellations t)"
  by (induction t rule: cancellations.induct) simp_all

lemma controller_scoped:
  assumes "abortController p = Some a" and "rp_signal (requestParams c q) \<noteq> AbortSignal a"
  shows "\<not> list_ex (\<lambda>x. triggers x (rp_signal (requestParams c q))) (trace (request P c p e))"
proof -
  have "\<not> triggers (Abort a) (rp_signal (requestParams c q))"
    using assms(2) by (cases "rp_signal (requestParams c q)") auto
  then show ?thesis
    using assms(1)
    by (simp add: triggers_cancellations [of _ "trace (request P c p e)"] cancellations_request
        cancel_effect_def)
qed

section \<open>The claims\<close>

text \<open>
  C5. A final path (the path with the query string appended) that holds a code unit
  outside 0x21 to 0xFF makes the call fail with a \<open>TypeError\<close>, which is none of the four
  errors of the connection; the failure is decided before the call waits for anything, so
  it is the same whatever the timer and the transport would do; and nothing is handed to
  the transport.
\<close>

theorem C5_invalid_path:
  assumes "ch \<in> set (rp_path (requestParams c p))" and "ch < 0x21 \<or> 0xFF < ch"
  shows "outcome (request P c p e) =
           Inl (TypeError (js ''ERR_UNESCAPED_CHARACTERS: '' @ rp_path (requestParams c p))) \<and>
         pool_requests (trace (request P c p e)) = [] \<and>
         request P c p e' = request P c p e"
proof -
  have inv: "INVALID_PATH_REGEX (rp_path (requestParams c p))"
    using assms INVALID_PATH_REGEX_iff by blast
  show ?thesis
    by (simp add: request_invalid [OF inv] pool_requests_set_timer)
qed

text \<open>Instances of C5.\<close>

theorem C5_witness:
  "outcome (request node64 node_conn spaced ok_env) =
     Inl (TypeError (js ''ERR_UNESCAPED_CHARACTERS: /my index/_search'')) \<and>
   pool_requests (trace (request node64 node_conn spaced ok_env)) = [] \<and>
   request node64 node_conn spaced timed_out_env = request node64 node_conn spaced ok_env"
proof -
  have p: "rp_path (requestParams node_conn spaced) = js ''/my index/_search''"
    by (simp add: requestParams_def spaced_def search_def)
  have 1: "0x20 \<in> set (rp_path (requestParams node_conn spaced))"
    by (simp add: p js_def)
  have 2: "(0x20 :: jschar) < 0x21 \<or> 0xFF < (0x20 :: jschar)"
    by simp
  show ?thesis
    using C5_invalid_path [OF 1 2, of node64 ok_env timed_out_env]
    by (simp add: p js_append [symmetric])
qed

text \<open>
  C8. The final path is the path of the call, followed by \<open>?\<close> and the query string exactly
  when the query string is there and is not empty. The final headers are the default
  headers of the connection overridden by the headers of the call: on every key the call
  gives, the call's value stands. Every request that a call hands to the transport carries
  this path and these headers, and a call with a well-formed path hands over exactly one.
\<close>

theorem C8_normalize:
  "(querystring p = None \<or> querystring p = Some [] \<longrightarrow>
      rp_path (requestParams c p) = path p) \<and>
   (\<forall>q. querystring p = Some q \<and> q \<noteq> [] \<longrightarrow>
      rp_path (requestParams c p) = path p @ js ''?'' @ q) \<and>
   (\<forall>k. rp_headers (requestParams c p) k =
      (case req_headers p of
         None \<Rightarrow> headers c k
       | Some h \<Rightarrow> (case h k of Some v \<Rightarrow> Some v | None \<Rightarrow> headers c k))) \<and>
   (\<forall>rp \<in> set (pool_requests (trace (request P c p e))). rp = requestParams c p) \<and>
   (\<not> INVALID_PATH_REGEX (rp_path (requestParams c p)) \<longrightarrow>
      pool_requests (trace (request P c p e)) = [requestParams c p])"
  by (auto simp: pool_requests_request requestParams_def map_add_def split: option.splits)

text \<open>Instances of C8.\<close>

theorem C8_witness:
  "rp_path (requestParams node_conn queried) = js ''/_search?q=1'' \<and>
   rp_path (requestParams node_conn search) = js ''/_search'' \<and>
   rp_headers (requestParams node_conn queried) (js ''x-node'') = Some (js ''b'') \<and>
   rp_headers (requestParams node_conn queried) (js ''accept'') = Some (js ''application/json'') \<and>
   pool_requests (trace (request node64 node_conn queried ok_env)) = [requestParams node_conn queried]"
proof -
  note n = C8_normalize [of queried node_conn node64 ok_env]
  have q: "querystring queried = Some (js ''q=1'') \<and> js ''q=1'' \<noteq> []"
    by (simp add: queried_def js_def)
  have "rp_path (requestParams node_conn queried) = path queried @ js ''?'' @ js ''q=1''"
    using n q by blast
  then have a: "rp_path (requestParams node_conn queried) = js ''/_search?q=1''"
    by (simp add: queried_def search_def js_def)
  have "querystring search = None"
    by (simp add: search_def)
  then have "rp_path (requestParams node_conn search) = path search"
    using C8_normalize [of search node_conn node64 ok_env] by blast
  then have b: "rp_path (requestParams node_conn search) = js ''/_search''"
    by (simp add: search_def)
  have h: "rp_headers (requestParams node_conn queried) k =
      (case req_headers queried of
         None \<Rightarrow> headers node_conn k
       | Some h \<Rightarrow> (case h k of Some v \<Rightarrow> Some v | None \<Rightarrow> headers node_conn k))" for k
    using n by blast
  have rh: "req_headers queried = Some [js ''x-node'' \<mapsto> js ''b'', js ''x-id'' \<mapsto> js ''9'']"
    by (simp add: queried_def)
  have dh: "headers node_conn = [js ''accept'' \<mapsto> js ''application/json'', js ''x-node'' \<mapsto> js ''a'']"
    by (simp add: node_conn_def)
  have c: "rp_headers (requestParams node_conn queried) (js ''x-node'') = Some (js ''b'')"
    by (simp add: h rh js_eq_iff)
  have d: "rp_headers (requestParams node_conn queried) (js ''accept'') = Some (js ''application/json'')"
    by (simp add: h rh dh js_eq_iff)
  have "\<not> INVALID_PATH_REGEX (rp_path (requestParams node_conn queried))"
    by (simp add: a INVALID_PATH_REGEX_def js_def)
  then have e: "pool_requests (trace (request node64 node_conn queried ok_env)) =
      [requestParams node_conn queried]"
    using n by blast
  show ?thesis
    using a b c d e by blast
qed

text \<open>
  C2. A call arms one timer, for the duration \<open>params.timeout\<close>, exactly when that timeout
  is set and differs from the default timeout of the connection, and no timer otherwise.
  When the timer elapses while the call waits for the transport, the call is marked as
  timed out and then the cancellation is triggered: the caller's controller is aborted if
  the call has one, otherwise the emitter of the connection emits \<open>abort\<close>. When the
  timeout is unset or equals the default, or when the timer does not elapse, the call is
  never marked and triggers no cancellation.
\<close>

theorem C2_timer:
  "(timers_set (trace (request P c p e)) =
      (case req_timeout p of None \<Rightarrow> [] | Some d \<Rightarrow> if d \<noteq> timeout c then [d] else [])) \<and>
   (\<forall>d. req_timeout p = Some d \<and> d \<noteq> timeout c \<and>
        \<not> INVALID_PATH_REGEX (rp_path (requestParams c p)) \<and> timer_fires e \<longrightarrow>
        timedout (request P c p e) \<and>
        prefix [SetTimeout d, Debug, PoolRequest (requestParams c p), SetTimedOut,
                (case abortController p of Some a \<Rightarrow> Abort a | None \<Rightarrow> EmitAbort (kEmitter c)),
                ClearTimeout]
          (trace (request P c p e))) \<and>
   (req_timeout p = None \<or> req_timeout p = Some (timeout c) \<longrightarrow>
        \<not> timedout (request P c p e) \<and> \<not> timer_pending (request P c p e) \<and>
        cancellations (trace (request P c p e)) = []) \<and>
   (\<not> timer_fires e \<longrightarrow>
        \<not> timedout (request P c p e) \<and> cancellations (trace (request P c p e)) = [])"
  apply (intro conjI allI impI)
         apply (rule timers_set_request)
        apply (simp add: timedout_request timer_armed_def)
       apply (simp add: trace_request settled_trace_def set_timer_def timer_armed_def
      timeout_callback_def clear_timer_def split: option.splits)
      apply (auto simp: timedout_request timer_pending_request timer_armed_def cancellations_request)
  done

text \<open>Instances of C2.\<close>

theorem C2_witness:
  "timers_set (trace (request node64 node_conn hurried timed_out_env)) = [50] \<and>
   timedout (request node64 node_conn hurried timed_out_env) \<and>
   prefix [SetTimeout 50, Debug, PoolRequest (requestParams node_conn hurried), SetTimedOut,
           EmitAbort (EventEmitter 7), ClearTimeout]
     (trace (request node64 node_conn hurried timed_out_env)) \<and>
   prefix [SetTimeout 50, Debug, PoolRequest (requestParams node_conn controlled), SetTimedOut,
           Abort (AbortController 3), ClearTimeout]
     (trace (request node64 node_conn controlled timed_out_env)) \<and>
   timers_set (trace (request node64 node_conn search ok_env)) = [] \<and>
   cancellations (trace (request node64 node_conn search ok_env)) = []"
proof -
  have 0: "req_timeout controlled = Some 50 \<and> (50 :: int) \<noteq> timeout node_conn \<and>
      \<not> INVALID_PATH_REGEX (rp_path (requestParams node_conn controlled)) \<and>
      timer_fires timed_out_env"
    by (simp add: controlled_def search_def node_conn_def requestParams_def INVALID_PATH_REGEX_def
        js_def timed_out_env_def)
  have 3: "abortController controlled = Some (AbortController 3)"
    by (simp add: controlled_def)
  have c: "prefix [SetTimeout 50, Debug, PoolRequest (requestParams node_conn controlled),
           SetTimedOut, Abort (AbortController 3), ClearTimeout]
     (trace (request node64 node_conn controlled timed_out_env))"
    using C2_timer [of node64 node_conn controlled timed_out_env] 0 by (simp add: 3)
  have 1: "req_timeout hurried = Some 50 \<and> (50 :: int) \<noteq> timeout node_conn \<and>
      \<not> INVALID_PATH_REGEX (rp_path (requestParams node_conn hurried)) \<and> timer_fires timed_out_env"
    by (simp add: hurried_def search_def node_conn_def requestParams_def INVALID_PATH_REGEX_def
        js_def timed_out_env_def)
  have 2: "req_timeout search = None" "abortController hurried = None"
    "kEmitter node_conn = EventEmitter 7"
    by (simp_all add: search_def hurried_def node_conn_def)
  show ?thesis
    using C2_timer [of node64 node_conn hurried timed_out_env]
      C2_timer [of node64 node_conn search ok_env] 1 c
    by (simp add: 2)
qed

text \<open>
  C9. A call with a malformed final path and a timeout that is set and differs from the
  default has armed its timer when it throws, and never clears it: the timer is all the
  call has done (nothing was handed to the transport) and it is still pending. When it
  elapses, its callback aborts the caller's controller if the call has one, and otherwise
  makes the emitter of the connection emit \<open>abort\<close>.
\<close>

theorem C9_timer_left_pending:
  assumes "INVALID_PATH_REGEX (rp_path (requestParams c p))"
    and "req_timeout p = Some d" and "d \<noteq> timeout c"
  shows "outcome (request P c p e) =
           Inl (TypeError (js ''ERR_UNESCAPED_CHARACTERS: '' @ rp_path (requestParams c p))) \<and>
         trace (request P c p e) = [SetTimeout d] \<and>
         timer_pending (request P c p e) \<and>
         pending_timer_elapses c p (request P c p e) =
           [SetTimedOut,
            (case abortController p of Some a \<Rightarrow> Abort a | None \<Rightarrow> EmitAbort (kEmitter c))]"
  using assms
  by (simp add: request_invalid set_timer_def timer_armed_def pending_timer_elapses_def
      timeout_callback_def split: option.splits)

text \<open>Instances of C9.\<close>

theorem C9_witness:
  "outcome (request node64 node_conn spaced ok_env) =
     Inl (TypeError (js ''ERR_UNESCAPED_CHARACTERS: /my index/_search'')) \<and>
   trace (request node64 node_conn spaced ok_env) = [SetTimeout 50] \<and>
   timer_pending (request node64 node_conn spaced ok_env) \<and>
   pending_timer_elapses node_conn spaced (request node64 node_conn spaced ok_env) =
     [SetTimedOut, EmitAbort (EventEmitter 7)]"
proof -
  have p: "rp_path (requestParams node_conn spaced) = js ''/my index/_search''"
    by (simp add: requestParams_def spaced_def search_def)
  have 1: "INVALID_PATH_REGEX (rp_path (requestParams node_conn spaced))"
    by (simp add: p js_def INVALID_PATH_REGEX_def)
  have 2: "req_timeout spaced = Some 50"
    by (simp add: spaced_def)
  have 3: "(50 :: int) \<noteq> timeout node_conn"
    by (simp add: node_conn_def)
  have 4: "abortController spaced = None" "kEmitter node_conn = EventEmitter 7"
    by (simp_all add: spaced_def search_def node_conn_def)
  show ?thesis
    using C9_timer_left_pending [OF 1 2 3, of node64 ok_env]
    by (simp add: p 4 js_append [symmetric])
qed

text \<open>
  C1, as the code has it. When \<open>pool.request\<close> rejects (the call has a well-formed path):
  an error with code \<open>UND_ERR_ABORTED\<close> gives \<open>TimeoutError('Request timed out')\<close> if the
  local timer has elapsed and \<open>RequestAbortedError('Request aborted')\<close> if it has not; an
  error with code \<open>UND_ERR_HEADERS_TIMEOUT\<close> gives \<open>TimeoutError('Request timed out')\<close>; any
  other error gives \<open>ConnectionError\<close> with the message of the error. When the body stream
  fails while it is read, the call throws \<open>ConnectionError\<close> with the message of the error,
  whatever the code of the error is. The local flag is set exactly when a timer was armed
  and elapsed before the transport settled. So the error depends on the phase of the
  failure, its code and the flag, and its message is only carried along.
\<close>

theorem C1_classification:
  assumes "\<not> INVALID_PATH_REGEX (rp_path (requestParams c p))"
  shows "(reply e = Inl err \<and> err_code err = Some (js ''UND_ERR_ABORTED'') \<and>
            timedout (request P c p e) \<longrightarrow>
            outcome (request P c p e) = Inl (TimeoutError (js ''Request timed out''))) \<and>
         (reply e = Inl err \<and> err_code err = Some (js ''UND_ERR_ABORTED'') \<and>
            \<not> timedout (request P c p e) \<longrightarrow>
            outcome (request P c p e) = Inl (RequestAbortedError (js ''Request aborted''))) \<and>
         (reply e = Inl err \<and> err_code err = Some (js ''UND_ERR_HEADERS_TIMEOUT'') \<longrightarrow>
            outcome (request P c p e) = Inl (TimeoutError (js ''Request timed out''))) \<and>
         (reply e = Inl err \<and> err_code err \<noteq> Some (js ''UND_ERR_ABORTED'') \<and>
            err_code err \<noteq> Some (js ''UND_ERR_HEADERS_TIMEOUT'') \<longrightarrow>
            outcome (request P c p e) = Inl (ConnectionError (err_message err))) \<and>
         (\<forall>r. reply e = Inr r \<and> check_content_length P (r_headers r) = None \<and>
            failure (r_body r) = Some err \<longrightarrow>
            outcome (request P c p e) = Inl (ConnectionError (err_message err))) \<and>
         timedout (request P c p e) = (timer_armed c p \<and> timer_fires e)"
proof -
  have rej: "reply e = Inl err \<Longrightarrow>
      outcome (request P c p e) = Inl (classify (timedout (request P c p e)) err)"
    using assms by (simp add: request_rejected)
  have body: "\<And>r. reply e = Inr r \<Longrightarrow> check_content_length P (r_headers r) = None \<Longrightarrow>
      failure (r_body r) = Some err \<Longrightarrow>
      outcome (request P c p e) = Inl (ConnectionError (err_message err))"
    using assms by (simp add: request_resolved on_response_def read_body_failure)
  have flag: "timedout (request P c p e) = (timer_armed c p \<and> timer_fires e)"
    using assms by (simp add: timedout_request)
  have ne: "js ''UND_ERR_HEADERS_TIMEOUT'' \<noteq> js ''UND_ERR_ABORTED''"
    by (simp add: js_eq_iff)
  show ?thesis
    using rej body flag ne by (auto simp: classify_cases)
qed

text \<open>Instances of C1.\<close>

theorem C1_witness:
  "outcome (request node64 node_conn hurried timed_out_env) =
     Inl (TimeoutError (js ''Request timed out'')) \<and>
   outcome (request node64 node_conn search (rejecting aborted)) =
     Inl (RequestAbortedError (js ''Request aborted'')) \<and>
   outcome (request node64 node_conn search (rejecting headers_timeout)) =
     Inl (TimeoutError (js ''Request timed out'')) \<and>
   outcome (request node64 node_conn search (rejecting refused)) =
     Inl (ConnectionError (js ''connect ECONNREFUSED'')) \<and>
   outcome (request node64 node_conn search abort_while_reading) =
     Inl (ConnectionError (js ''Request aborted''))"
proof -
  have armed: "timer_armed node_conn hurried" and fires: "timer_fires timed_out_env"
    by (simp_all add: timer_armed_def hurried_def node_conn_def timed_out_env_def)
  have t: "timedout (request node64 node_conn hurried timed_out_env)"
    by (simp add: timedout_request hurried_valid armed fires)
  have n: "\<not> timedout (request node64 node_conn search (rejecting aborted))"
    by (simp add: timedout_request rejecting_def)
  have a: "reply timed_out_env = Inl aborted \<and> err_code aborted = Some (js ''UND_ERR_ABORTED'')"
    by (simp add: timed_out_env_def aborted_def)
  have 1: "outcome (request node64 node_conn hurried timed_out_env) =
     Inl (TimeoutError (js ''Request timed out''))"
    using C1_classification [OF hurried_valid, of timed_out_env aborted node64] a t by blast
  have b: "reply (rejecting aborted) = Inl aborted"
    by (simp add: rejecting_def)
  have 2: "outcome (request node64 node_conn search (rejecting aborted)) =
     Inl (RequestAbortedError (js ''Request aborted''))"
    using C1_classification [OF search_valid, of "rejecting aborted" aborted node64] a b n by blast
  have c: "reply (rejecting headers_timeout) = Inl headers_timeout \<and>
      err_code headers_timeout = Some (js ''UND_ERR_HEADERS_TIMEOUT'')"
    by (simp add: rejecting_def headers_timeout_def)
  have 3: "outcome (request node64 node_conn search (rejecting headers_timeout)) =
     Inl (TimeoutError (js ''Request timed out''))"
    using C1_classification [OF search_valid, of "rejecting headers_timeout" headers_timeout node64] c
    by blast
  have d: "reply (rejecting refused) = Inl refused \<and>
      err_code refused \<noteq> Some (js ''UND_ERR_ABORTED'') \<and>
      err_code refused \<noteq> Some (js ''UND_ERR_HEADERS_TIMEOUT'') \<and>
      err_message refused = js ''connect ECONNREFUSED''"
    by (simp add: rejecting_def refused_def js_eq_iff)
  have 4: "outcome (request node64 node_conn search (rejecting refused)) =
     Inl (ConnectionError (js ''connect ECONNREFUSED''))"
    using C1_classification [OF search_valid, of "rejecting refused" refused node64] d by metis
  have f: "reply abort_while_reading =
      Inr \<lparr>r_statusCode = 200, r_headers = Map.empty,
           r_body = \<lparr>chunks = [take 5 ok_body], failure = Some aborted\<rparr>\<rparr>"
    by (simp add: abort_while_reading_def)
  have g: "check_content_length node64 (r_headers \<lparr>r_statusCode = 200, r_headers = Map.empty,
           r_body = \<lparr>chunks = [take 5 ok_body], failure = Some aborted\<rparr>\<rparr>) = None"
    by (simp add: check_content_length_def)
  have h: "failure (r_body \<lparr>r_statusCode = 200, r_headers = Map.empty,
           r_body = \<lparr>chunks = [take 5 ok_body], failure = Some aborted\<rparr>\<rparr>) = Some aborted"
    by simp
  have m: "err_message aborted = js ''Request aborted''"
    by (simp add: aborted_def)
  have 5: "outcome (request node64 node_conn search abort_while_reading) =
     Inl (ConnectionError (js ''Request aborted''))"
    using C1_classification [OF search_valid, of abort_while_reading aborted node64] f g h m
    by metis
  show ?thesis
    using 1 2 3 4 5 by blast
qed

text \<open>
  C1 as it is stated fails where the body stream is aborted while it is read: the failure
  is of the abort kind, the local timer has not elapsed, and the call throws
  \<open>ConnectionError\<close>, not \<open>RequestAbortedError\<close>.
\<close>

theorem C1_counterexample:
  "\<not> (transport_failure abort_while_reading = Some aborted \<and>
      err_code aborted = Some (js ''UND_ERR_ABORTED'') \<and>
      \<not> timedout (request node64 node_conn search abort_while_reading) \<longrightarrow>
      outcome (request node64 node_conn search abort_while_reading) =
        Inl (RequestAbortedError (js ''Request aborted'')))"
proof -
  have r: "reply abort_while_reading =
      Inr \<lparr>r_statusCode = 200, r_headers = Map.empty,
           r_body = \<lparr>chunks = [take 5 ok_body], failure = Some aborted\<rparr>\<rparr>"
    by (simp add: abort_while_reading_def)
  have "outcome (request node64 node_conn search abort_while_reading) =
      Inl (ConnectionError (js ''Request aborted''))"
    by (simp add: request_resolved [OF search_valid r] on_response_def check_content_length_def
        read_body_def aborted_def)
  moreover have "\<not> timedout (request node64 node_conn search abort_while_reading)"
    by (simp add: timedout_request abort_while_reading_def)
  moreover have "transport_failure abort_while_reading = Some aborted"
    by (simp add: transport_failure_def abort_while_reading_def)
  ultimately show ?thesis
    by (simp add: aborted_def)
qed

text \<open>
  C3. When the response declares a \<open>content-length\<close>, the header is converted with
  \<open>Number\<close> and checked before the body is used. If the body is compressed and the length
  exceeds the maximum buffer length, the call destroys the body stream, uses it in no
  other way, and throws \<open>RequestAbortedError\<close> with a message that holds the length and the
  maximum buffer length. Otherwise, if the length exceeds the maximum string length, be the
  body compressed or not, the call does the same with a message that holds the length and
  the maximum string length. Otherwise the body stream is not destroyed and the body is
  read. So on a platform whose maximum string length is not above its maximum buffer
  length, a body of either kind whose declared length exceeds either ceiling is refused.
\<close>

theorem C3_content_length:
  assumes "\<not> INVALID_PATH_REGEX (rp_path (requestParams c p))"
    and "reply e = Inr r"
    and "r_headers r (js ''content-length'') = Some v"
  shows "(isCompressed (r_headers r) \<and> js_gt (Number P v) (MAX_BUFFER_LENGTH P) \<longrightarrow>
            outcome (request P c p e) =
              Inl (RequestAbortedError
                (js ''The content length ('' @ NumberToString P (Number P v) @
                 js '') is bigger than the maximum allowed buffer ('' @
                 NumberToString P (MAX_BUFFER_LENGTH P) @ js '')'')) \<and>
            body_destroys (trace (request P c p e)) = 1 \<and>
            body_reads (trace (request P c p e)) = 0) \<and>
         (\<not> (isCompressed (r_headers r) \<and> js_gt (Number P v) (MAX_BUFFER_LENGTH P)) \<and>
            js_gt (Number P v) (MAX_STRING_LENGTH P) \<longrightarrow>
            outcome (request P c p e) =
              Inl (RequestAbortedError
                (js ''The content length ('' @ NumberToString P (Number P v) @
                 js '') is bigger than the maximum allowed string ('' @
                 NumberToString P (MAX_STRING_LENGTH P) @ js '')'')) \<and>
            body_destroys (trace (request P c p e)) = 1 \<and>
            body_reads (trace (request P c p e)) = 0) \<and>
         (\<not> (isCompressed (r_headers r) \<and> js_gt (Number P v) (MAX_BUFFER_LENGTH P)) \<and>
            \<not> js_gt (Number P v) (MAX_STRING_LENGTH P) \<longrightarrow>
            outcome (request P c p e) = read_body P r \<and>
            body_destroys (trace (request P c p e)) = 0) \<and>
         (MAX_STRING_LENGTH' P \<le> MAX_LENGTH P \<and>
            (js_gt (Number P v) (MAX_BUFFER_LENGTH P) \<or>
             js_gt (Number P v) (MAX_STRING_LENGTH P)) \<longrightarrow>
            (\<exists>m. outcome (request P c p e) = Inl (RequestAbortedError m)) \<and>
            body_destroys (trace (request P c p e)) = 1 \<and>
            body_reads (trace (request P c p e)) = 0)"
proof -
  have chk: "check_content_length P (r_headers r) =
     (if isCompressed (r_headers r) \<and> js_gt (Number P v) (MAX_BUFFER_LENGTH P)
      then Some (RequestAbortedError (too_big_for_buffer P (Number P v)))
      else if js_gt (Number P v) (MAX_STRING_LENGTH P)
      then Some (RequestAbortedError (too_big_for_string P (Number P v)))
      else None)"
    using assms(3) by (rule check_content_length_cases)
  note req = request_resolved [OF assms(1) assms(2), of P]
  have big: "isCompressed (r_headers r) \<and> js_gt (Number P v) (MAX_BUFFER_LENGTH P) \<Longrightarrow>
      on_response P r = (Inl (RequestAbortedError (too_big_for_buffer P (Number P v))), [BodyDestroy])"
    by (rule on_response_too_big) (auto simp: chk)
  have long: "\<not> (isCompressed (r_headers r) \<and> js_gt (Number P v) (MAX_BUFFER_LENGTH P)) \<Longrightarrow>
      js_gt (Number P v) (MAX_STRING_LENGTH P) \<Longrightarrow>
      on_response P r = (Inl (RequestAbortedError (too_big_for_string P (Number P v))), [BodyDestroy])"
    by (rule on_response_too_big) (auto simp: chk)
  have fits: "\<not> (isCompressed (r_headers r) \<and> js_gt (Number P v) (MAX_BUFFER_LENGTH P)) \<Longrightarrow>
      \<not> js_gt (Number P v) (MAX_STRING_LENGTH P) \<Longrightarrow>
      on_response P r = (read_body P r, DiagnosticDeserialization # read_trace P r)"
    by (rule on_response_passes) (auto simp: chk)
  show ?thesis
  proof (intro conjI impI)
    assume a: "isCompressed (r_headers r) \<and> js_gt (Number P v) (MAX_BUFFER_LENGTH P)"
    show "outcome (request P c p e) =
              Inl (RequestAbortedError
                (js ''The content length ('' @ NumberToString P (Number P v) @
                 js '') is bigger than the maximum allowed buffer ('' @
                 NumberToString P (MAX_BUFFER_LENGTH P) @ js '')''))"
      by (simp add: req big [OF a] too_big_for_buffer_def)
    show "body_destroys (trace (request P c p e)) = 1"
      by (simp add: req big [OF a] body_destroys_append body_destroys_settled)
    show "body_reads (trace (request P c p e)) = 0"
      by (simp add: req big [OF a] body_reads_append body_reads_settled)
  next
    assume a: "\<not> (isCompressed (r_headers r) \<and> js_gt (Number P v) (MAX_BUFFER_LENGTH P)) \<and>
        js_gt (Number P v) (MAX_STRING_LENGTH P)"
    then have l: "on_response P r =
        (Inl (RequestAbortedError (too_big_for_string P (Number P v))), [BodyDestroy])"
      using long by blast
    show "outcome (request P c p e) =
              Inl (RequestAbortedError
                (js ''The content length ('' @ NumberToString P (Number P v) @
                 js '') is bigger than the maximum allowed string ('' @
                 NumberToString P (MAX_STRING_LENGTH P) @ js '')''))"
      by (simp add: req l too_big_for_string_def)
    show "body_destroys (trace (request P c p e)) = 1"
      by (simp add: req l body_destroys_append body_destroys_settled)
    show "body_reads (trace (request P c p e)) = 0"
      by (simp add: req l body_reads_append body_reads_settled)
  next
    assume a: "\<not> (isCompressed (r_headers r) \<and> js_gt (Number P v) (MAX_BUFFER_LENGTH P)) \<and>
        \<not> js_gt (Number P v) (MAX_STRING_LENGTH P)"
    then have f: "on_response P r = (read_body P r, DiagnosticDeserialization # read_trace P r)"
      using fits by blast
    show "outcome (request P c p e) = read_body P r"
      by (simp add: req f)
    show "body_destroys (trace (request P c p e)) = 0"
      by (simp add: req f body_destroys_append body_destroys_settled body_destroys_read_trace)
  next
    assume a: "MAX_STRING_LENGTH' P \<le> MAX_LENGTH P \<and>
        (js_gt (Number P v) (MAX_BUFFER_LENGTH P) \<or> js_gt (Number P v) (MAX_STRING_LENGTH P))"
    then have "js_gt (Number P v) (MAX_STRING_LENGTH P)"
      using ceilings_ordered by blast
    then obtain m where o: "on_response P r = (Inl (RequestAbortedError m), [BodyDestroy])"
      using big long by blast
    show "\<exists>m. outcome (request P c p e) = Inl (RequestAbortedError m)"
      by (simp add: req o)
    show "body_destroys (trace (request P c p e)) = 1"
      by (simp add: req o body_destroys_append body_destroys_settled)
    show "body_reads (trace (request P c p e)) = 0"
      by (simp add: req o body_reads_append body_reads_settled)
  qed
qed

text \<open>Instances of C3.\<close>

theorem C3_witness:
  "outcome (request node64 node_conn search (answering gzip_huge)) =
     Inl (RequestAbortedError (js
       ''The content length (4294967297) is bigger than the maximum allowed buffer (4294967296)'')) \<and>
   body_destroys (trace (request node64 node_conn search (answering gzip_huge))) = 1 \<and>
   body_reads (trace (request node64 node_conn search (answering gzip_huge))) = 0 \<and>
   outcome (request node64 node_conn search (answering gzip_long)) =
     Inl (RequestAbortedError (js
       ''The content length (600000000) is bigger than the maximum allowed string (536870888)'')) \<and>
   outcome (request node64 node_conn search (answering text_long)) =
     Inl (RequestAbortedError (js
       ''The content length (600000000) is bigger than the maximum allowed string (536870888)'')) \<and>
   body_reads (trace (request node64 node_conn search (answering text_long))) = 0 \<and>
   body_destroys (trace (request node64 node_conn search (answering text_short))) = 0 \<and>
   (\<exists>m. outcome (request node64 node_conn search (answering text_huge)) =
      Inl (RequestAbortedError m)) \<and>
   body_reads (trace (request node64 node_conn search (answering text_huge))) = 0"
proof -
  note huge = C3_content_length [OF search_valid answering_sel(1) [of gzip_huge], where P = node64,
      unfolded answer_sel, OF length_examples(1)]
  note long = C3_content_length [OF search_valid answering_sel(1) [of gzip_long], where P = node64,
      unfolded answer_sel, OF length_examples(2)]
  note plain = C3_content_length [OF search_valid answering_sel(1) [of text_long], where P = node64,
      unfolded answer_sel, OF length_examples(3)]
  note short = C3_content_length [OF search_valid answering_sel(1) [of text_short], where P = node64,
      unfolded answer_sel, OF length_examples(4)]
  have gt: "js_gt (Fin 4294967297) (Fin 4294967296)" "\<not> js_gt (Fin 600000000) (Fin 4294967296)"
    "js_gt (Fin 600000000) (Fin 536870888)" "\<not> js_gt (Fin 11) (Fin 536870888)"
    by simp_all
  have 1: "outcome (request node64 node_conn search (answering gzip_huge)) =
     Inl (RequestAbortedError (js
       ''The content length (4294967297) is bigger than the maximum allowed buffer (4294967296)'')) \<and>
   body_destroys (trace (request node64 node_conn search (answering gzip_huge))) = 1 \<and>
   body_reads (trace (request node64 node_conn search (answering gzip_huge))) = 0"
    using huge gt
    by (simp add: isCompressed_examples Number_node64 digits_examples decimal_examples
        MAX_BUFFER_LENGTH_node64 MAX_STRING_LENGTH_node64 js_append [symmetric])
  have 2: "outcome (request node64 node_conn search (answering gzip_long)) =
     Inl (RequestAbortedError (js
       ''The content length (600000000) is bigger than the maximum allowed string (536870888)''))"
    using long gt
    by (simp add: isCompressed_examples Number_node64 digits_examples decimal_examples
        MAX_BUFFER_LENGTH_node64 MAX_STRING_LENGTH_node64 js_append [symmetric])
  have 3: "outcome (request node64 node_conn search (answering text_long)) =
     Inl (RequestAbortedError (js
       ''The content length (600000000) is bigger than the maximum allowed string (536870888)'')) \<and>
     body_reads (trace (request node64 node_conn search (answering text_long))) = 0"
    using plain gt
    by (simp add: isCompressed_examples Number_node64 digits_examples decimal_examples
        MAX_BUFFER_LENGTH_node64 MAX_STRING_LENGTH_node64 js_append [symmetric])
  have 4: "body_destroys (trace (request node64 node_conn search (answering text_short))) = 0"
    using short gt
    by (simp add: isCompressed_examples Number_node64 digits_examples decimal_examples
        MAX_BUFFER_LENGTH_node64 MAX_STRING_LENGTH_node64)
  note huge_text = C3_content_length [OF search_valid answering_sel(1) [of text_huge],
      where P = node64, unfolded answer_sel, OF length_examples(6)]
  have ordered: "MAX_STRING_LENGTH' node64 \<le> MAX_LENGTH node64"
    by (simp add: node64_def)
  have over: "js_gt (Number node64 (js ''4294967297'')) (MAX_BUFFER_LENGTH node64)"
    by (simp add: Number_node64 digits_examples MAX_BUFFER_LENGTH_node64)
  have 5: "(\<exists>m. outcome (request node64 node_conn search (answering text_huge)) =
      Inl (RequestAbortedError m)) \<and>
    body_reads (trace (request node64 node_conn search (answering text_huge))) = 0"
    using huge_text ordered over by blast
  show ?thesis
    using 1 2 3 4 5 by blast
qed

text \<open>
  C10. When the declared \<open>content-length\<close> converts to \<open>NaN\<close>, neither comparison holds, the
  body stream is not destroyed, and the call does what it does for the same response
  without the header: the same effects in the same order, and the same error or the same
  status and body.
\<close>

theorem C10_unparsable_length:
  assumes "\<not> INVALID_PATH_REGEX (rp_path (requestParams c p))"
    and "reply e = Inr r"
    and "r_headers r (js ''content-length'') = Some v"
    and "Number P v = NaN"
  shows "\<not> js_gt (Number P v) (MAX_BUFFER_LENGTH P) \<and>
         \<not> js_gt (Number P v) (MAX_STRING_LENGTH P) \<and>
         outcome (request P c p e) = read_body P r \<and>
         body_destroys (trace (request P c p e)) = 0 \<and>
         trace (request P c p e) = trace (request P c p (without_length e)) \<and>
         status_and_body (request P c p e) = status_and_body (request P c p (without_length e))"
proof -
  let ?r = "r\<lparr>r_headers := (r_headers r)(js ''content-length'' := None)\<rparr>"
  have w: "without_length e = e\<lparr>reply := Inr ?r\<rparr>"
    by (simp add: without_length_def assms(2))
  have there: "on_response P r = (read_body P r, DiagnosticDeserialization # read_trace P r)"
    using assms(3) assms(4)
    by (intro on_response_passes check_content_length_NaN)
  have gone: "on_response P ?r = (read_body P ?r, DiagnosticDeserialization # read_trace P ?r)"
    by (rule on_response_passes) (simp add: check_content_length_absent)
  have a: "request P c p e =
      \<lparr>outcome = read_body P r,
       trace = settled_trace c p e @ DiagnosticDeserialization # read_trace P r,
       timedout = (timer_armed c p \<and> timer_fires e), timer_pending = False\<rparr>"
    using request_resolved [OF assms(1) assms(2), of P] by (simp add: there)
  have b: "request P c p (without_length e) =
      \<lparr>outcome = read_body P ?r,
       trace = settled_trace c p e @ DiagnosticDeserialization # read_trace P r,
       timedout = (timer_armed c p \<and> timer_fires e), timer_pending = False\<rparr>"
    using request_resolved [OF assms(1), of "e\<lparr>reply := Inr ?r\<rparr>" ?r P]
    by (simp add: w gone read_trace_without_length settled_trace_reply)
  have same: "status_and_body (request P c p e) = status_and_body (request P c p (without_length e))"
    by (simp add: a b status_and_body_def read_body_def isCompressed_without_length
        split: option.splits)
  have destroys: "body_destroys (trace (request P c p e)) = 0"
    by (simp add: a body_destroys_append body_destroys_settled body_destroys_read_trace)
  show ?thesis
    using same destroys by (simp add: a b assms(4))
qed

text \<open>Instances of C10.\<close>

theorem C10_witness:
  "\<not> js_gt (Number node64 (js ''abc'')) (MAX_BUFFER_LENGTH node64) \<and>
   \<not> js_gt (Number node64 (js ''abc'')) (MAX_STRING_LENGTH node64) \<and>
   outcome (request node64 node_conn search (answering text_odd)) =
     Inr \<lparr>statusCode = 200, res_headers = text_odd,
          res_body = StringBody (map ucast ok_body)\<rparr> \<and>
   body_destroys (trace (request node64 node_conn search (answering text_odd))) = 0 \<and>
   status_and_body (request node64 node_conn search (answering text_odd)) =
     status_and_body (request node64 node_conn search (without_length (answering text_odd)))"
proof -
  have nan: "Number node64 (js ''abc'') = NaN"
    by (simp add: Number_node64 digits_examples)
  note odd = C10_unparsable_length [OF search_valid answering_sel(1) [of text_odd],
      where P = node64, unfolded answer_sel, OF length_examples(5) nan]
  have rb: "read_body node64 (answer text_odd) =
     Inr \<lparr>statusCode = 200, res_headers = text_odd, res_body = StringBody (map ucast ok_body)\<rparr>"
    by (simp add: read_body_def answer_sel isCompressed_examples node64_def take_map [symmetric]
        drop_map [symmetric])
  show ?thesis
    using odd [unfolded rb] by blast
qed

text \<open>
  C6. A call returns a response exactly when its path is well formed, the transport
  resolves, the declared length passes the check and the body stream ends without a
  failure. The response then has the status and the headers of the transport's response;
  its body is one buffer, the raw chunks concatenated, when the body is compressed, and
  one string, the decoded chunks concatenated, when it is not; never both. The body is
  compressed exactly when the \<open>content-encoding\<close> header is there and holds, in letters of
  either case, \<open>gzip\<close> or \<open>deflate\<close>.
\<close>

theorem C6_body:
  "((\<exists>out. outcome (request P c p e) = Inr out) \<longleftrightarrow>
      \<not> INVALID_PATH_REGEX (rp_path (requestParams c p)) \<and>
      (\<exists>r. reply e = Inr r \<and> check_content_length P (r_headers r) = None \<and>
           failure (r_body r) = None)) \<and>
   (\<forall>out r. outcome (request P c p e) = Inr out \<and> reply e = Inr r \<longrightarrow>
      statusCode out = r_statusCode r \<and> res_headers out = r_headers r \<and>
      (isCompressed (r_headers r) \<longrightarrow>
         res_body out = BufferBody (concat (chunks (r_body r)))) \<and>
      (\<not> isCompressed (r_headers r) \<longrightarrow>
         res_body out = StringBody (concat (utf8_chunks P (chunks (r_body r))))) \<and>
      is_buffer (res_body out) = isCompressed (r_headers r) \<and>
      is_string (res_body out) = (\<not> isCompressed (r_headers r))) \<and>
   (\<forall>hs. isCompressed hs \<longleftrightarrow>
      (\<exists>enc w. hs (js ''content-encoding'') = Some enc \<and> sublist w enc \<and>
         (toLowerCase w = js ''gzip'' \<or> toLowerCase w = js ''deflate'')))"
proof (intro conjI allI impI)
  show "(\<exists>out. outcome (request P c p e) = Inr out) \<longleftrightarrow>
      \<not> INVALID_PATH_REGEX (rp_path (requestParams c p)) \<and>
      (\<exists>r. reply e = Inr r \<and> check_content_length P (r_headers r) = None \<and>
           failure (r_body r) = None)"
    by (auto simp: outcome_Inr read_body_complete dest: read_body_Inr)
next
  fix out r
  assume a: "outcome (request P c p e) = Inr out \<and> reply e = Inr r"
  then have rb: "read_body P r = Inr out"
    by (auto simp: outcome_Inr)
  then have "failure (r_body r) = None"
    by (rule read_body_Inr)
  then have out: "out = \<lparr>statusCode = r_statusCode r, res_headers = r_headers r,
          res_body = (if isCompressed (r_headers r)
                      then BufferBody (concat (chunks (r_body r)))
                      else StringBody (concat (utf8_chunks P (chunks (r_body r)))))\<rparr>"
    using rb by (simp add: read_body_complete)
  show "statusCode out = r_statusCode r" by (simp add: out)
  show "res_headers out = r_headers r" by (simp add: out)
  show "is_buffer (res_body out) = isCompressed (r_headers r)" by (simp add: out)
  show "is_string (res_body out) = (\<not> isCompressed (r_headers r))" by (simp add: out)
  {
    assume "isCompressed (r_headers r)"
    then show "res_body out = BufferBody (concat (chunks (r_body r)))" by (simp add: out)
  }
  {
    assume "\<not> isCompressed (r_headers r)"
    then show "res_body out = StringBody (concat (utf8_chunks P (chunks (r_body r))))"
      by (simp add: out)
  }
next
  fix hs
  show "isCompressed hs \<longleftrightarrow>
      (\<exists>enc w. hs (js ''content-encoding'') = Some enc \<and> sublist w enc \<and>
         (toLowerCase w = js ''gzip'' \<or> toLowerCase w = js ''deflate''))"
    by (rule isCompressed_iff)
qed

text \<open>Instances of C6.\<close>

theorem C6_witness:
  "outcome (request node64 node_conn search (answering gzip_short)) =
     Inr \<lparr>statusCode = 200, res_headers = gzip_short, res_body = BufferBody ok_body\<rparr> \<and>
   outcome (request node64 node_conn search (answering text_short)) =
     Inr \<lparr>statusCode = 200, res_headers = text_short, res_body = StringBody (map ucast ok_body)\<rparr>"
proof -
  have bytes: "concat (chunks (r_body (answer hs))) = ok_body"
    and units: "concat (utf8_chunks node64 (chunks (r_body (answer hs)))) = map ucast ok_body" for hs
    by (simp_all add: answer_sel node64_def take_map [symmetric] drop_map [symmetric])
  have z: "gzip_short (js ''content-length'') = Some (js ''11'')"
    by (simp add: gzip_short_def)
  have zc: "isCompressed gzip_short"
    by (simp add: isCompressed_def gzip_short_def js_eq_iff)
      (simp add: js_def toLowerCase_def lower_unit_def)
  have small: "\<not> js_gt (Number node64 (js ''11'')) (MAX_BUFFER_LENGTH node64)"
    "\<not> js_gt (Number node64 (js ''11'')) (MAX_STRING_LENGTH node64)"
    by (simp_all add: Number_node64 digits_examples MAX_BUFFER_LENGTH_node64
        MAX_STRING_LENGTH_node64)
  have fits: "check_content_length node64 (r_headers (answer gzip_short)) = None"
    "check_content_length node64 (r_headers (answer text_short)) = None"
    by (simp_all add: answer_sel small check_content_length_cases [where hs = gzip_short, OF z]
        check_content_length_cases [where hs = text_short, OF length_examples(4)])
  note g = C6_body [of node64 node_conn search "answering gzip_short"]
  note t = C6_body [of node64 node_conn search "answering text_short"]
  have "\<exists>out. outcome (request node64 node_conn search (answering gzip_short)) = Inr out"
    by (rule g [THEN conjunct1, THEN iffD2])
      (intro conjI exI [of _ "answer gzip_short"] search_valid answering_sel fits answer_sel)
  then obtain og where og: "outcome (request node64 node_conn search (answering gzip_short)) = Inr og"
    by blast
  have "\<exists>out. outcome (request node64 node_conn search (answering text_short)) = Inr out"
    by (rule t [THEN conjunct1, THEN iffD2])
      (intro conjI exI [of _ "answer text_short"] search_valid answering_sel fits answer_sel)
  then obtain ot where ot: "outcome (request node64 node_conn search (answering text_short)) = Inr ot"
    by blast
  have "statusCode og = r_statusCode (answer gzip_short) \<and>
      res_headers og = r_headers (answer gzip_short) \<and>
      (isCompressed (r_headers (answer gzip_short)) \<longrightarrow>
         res_body og = BufferBody (concat (chunks (r_body (answer gzip_short)))))"
    using g [THEN conjunct2, THEN conjunct1, rule_format, of og "answer gzip_short"]
      og answering_sel(1) [of gzip_short]
    by blast
  then have 1: "og = \<lparr>statusCode = 200, res_headers = gzip_short, res_body = BufferBody ok_body\<rparr>"
    by (cases og) (simp add: answer_sel(1,2) zc bytes)
  have "statusCode ot = r_statusCode (answer text_short) \<and>
      res_headers ot = r_headers (answer text_short) \<and>
      (\<not> isCompressed (r_headers (answer text_short)) \<longrightarrow>
         res_body ot =
           StringBody (concat (utf8_chunks node64 (chunks (r_body (answer text_short))))))"
    using t [THEN conjunct2, THEN conjunct1, rule_format, of ot "answer text_short"]
      ot answering_sel(1) [of text_short]
    by blast
  then have 2: "ot = \<lparr>statusCode = 200, res_headers = text_short,
      res_body = StringBody (map ucast ok_body)\<rparr>"
    by (cases ot) (simp add: answer_sel(1,2) isCompressed_examples units)
  show ?thesis
    by (simp add: og ot 1 2)
qed

text \<open>
  C7. When the constructor of the base class throws, the constructor throws the same
  error and creates no pool. When it returns, the constructor throws \<open>ConfigurationError\<close>
  exactly when a proxy is given that is neither \<open>null\<close> nor \<open>undefined\<close>, or the agent is a
  function or a boolean, or the agent is an object that gives one of \<open>keepAlive\<close>,
  \<open>keepAliveMsecs\<close>, \<open>maxSockets\<close>, \<open>maxFreeSockets\<close>, \<open>scheduling\<close>, \<open>proxy\<close> a value that
  is neither \<open>null\<close> nor \<open>undefined\<close>. In that case no pool is created; otherwise exactly
  one pool is created, for the URL of the node, and the connection holds it.
\<close>

theorem C7_constructor:
  "(\<forall>err. super opts = Inl err \<longrightarrow> constructor super ref opts = (Inl err, [])) \<and>
   (\<forall>b. super opts = Inr b \<longrightarrow>
      ((\<exists>m. fst (constructor super ref opts) = Inl (ConfigurationError m)) \<longleftrightarrow>
         proxy_given opts \<or> opt_agent opts = Some AgentFunction \<or>
         (\<exists>v. opt_agent opts = Some (AgentBoolean v)) \<or>
         (\<exists>obj. opt_agent opts = Some (AgentObject obj) \<and>
            (not_nullish obj (js ''keepAlive'') \<or> not_nullish obj (js ''keepAliveMsecs'') \<or>
             not_nullish obj (js ''maxSockets'') \<or> not_nullish obj (js ''maxFreeSockets'') \<or>
             not_nullish obj (js ''scheduling'') \<or> not_nullish obj (js ''proxy'')))) \<and>
      ((\<exists>m. fst (constructor super ref opts) = Inl (ConfigurationError m)) \<longrightarrow>
         snd (constructor super ref opts) = []) \<and>
      (\<not> (\<exists>m. fst (constructor super ref opts) = Inl (ConfigurationError m)) \<longrightarrow>
         (\<exists>conn. fst (constructor super ref opts) = Inr conn \<and>
            snd (constructor super ref opts) = [pool conn] \<and>
            pool_url (pool conn) = url b)))"
proof (intro conjI allI impI)
  fix err
  assume "super opts = Inl err"
  then show "constructor super ref opts = (Inl err, [])"
    by (simp add: constructor_def)
next
  fix b
  assume s: "super opts = Inr b"
  show "(\<exists>m. fst (constructor super ref opts) = Inl (ConfigurationError m)) \<longleftrightarrow>
         proxy_given opts \<or> opt_agent opts = Some AgentFunction \<or>
         (\<exists>v. opt_agent opts = Some (AgentBoolean v)) \<or>
         (\<exists>obj. opt_agent opts = Some (AgentObject obj) \<and>
            (not_nullish obj (js ''keepAlive'') \<or> not_nullish obj (js ''keepAliveMsecs'') \<or>
             not_nullish obj (js ''maxSockets'') \<or> not_nullish obj (js ''maxFreeSockets'') \<or>
             not_nullish obj (js ''scheduling'') \<or> not_nullish obj (js ''proxy'')))"
    using s
    by (auto simp: constructor_def function_or_boolean_def isUndiciAgentOptions_iff
        reserved_given_def Let_def split: option.splits agent.splits)
next
  fix b
  assume s: "super opts = Inr b"
    and "\<exists>m. fst (constructor super ref opts) = Inl (ConfigurationError m)"
  then show "snd (constructor super ref opts) = []"
    by (auto simp: constructor_def Let_def split: if_splits)
next
  fix b
  assume s: "super opts = Inr b"
    and "\<not> (\<exists>m. fst (constructor super ref opts) = Inl (ConfigurationError m))"
  then show "\<exists>conn. fst (constructor super ref opts) = Inr conn \<and>
            snd (constructor super ref opts) = [pool conn] \<and>
            pool_url (pool conn) = url b"
    by (auto simp: constructor_def Let_def BaseConnection.defs split: if_splits)
qed

text \<open>Instances of C7.\<close>

theorem C7_witness:
  "constructor node_super 7 proxy_options =
     (Inl (ConfigurationError (js ''Undici connection can't work with proxies'')), []) \<and>
   constructor node_super 7 function_options =
     (Inl (ConfigurationError
        (js ''Undici connection agent options can't be a function or a boolean'')), []) \<and>
   constructor node_super 7 http_agent_options =
     (Inl (ConfigurationError (js ''Bad agent configuration for Undici agent'')), []) \<and>
   constructor node_super 7 plain_options = (Inr node_conn, [pool node_conn]) \<and>
   pool_url (pool node_conn) = js ''http://localhost:9200/''"
proof -
  have s: "node_super opts = Inr node_base" for opts
    by (simp add: node_super_def)
  note p = C7_constructor [of node_super proxy_options 7, THEN conjunct2, rule_format, OF s]
  note f = C7_constructor [of node_super function_options 7, THEN conjunct2, rule_format, OF s]
  note h = C7_constructor [of node_super http_agent_options 7, THEN conjunct2, rule_format, OF s]
  note g = C7_constructor [of node_super plain_options 7, THEN conjunct2, rule_format, OF s]
  have pg: "proxy_given proxy_options"
    by (simp add: proxy_given_def proxy_options_def)
  then have pe: "\<exists>m. fst (constructor node_super 7 proxy_options) = Inl (ConfigurationError m)"
    using p by blast
  then have "snd (constructor node_super 7 proxy_options) = []"
    using p by blast
  then have 1: "constructor node_super 7 proxy_options =
     (Inl (ConfigurationError (js ''Undici connection can't work with proxies'')), [])"
    using pe by (simp add: constructor_def s pg)
  have "opt_agent function_options = Some AgentFunction"
    by (simp add: function_options_def)
  then have fe: "\<exists>m. fst (constructor node_super 7 function_options) = Inl (ConfigurationError m)"
    using f by blast
  then have "snd (constructor node_super 7 function_options) = []"
    using f by blast
  moreover have fg: "\<not> proxy_given function_options"
    "function_or_boolean (opt_agent function_options)"
    by (simp_all add: proxy_given_def function_options_def function_or_boolean_def)
  ultimately have 2: "constructor node_super 7 function_options =
     (Inl (ConfigurationError
        (js ''Undici connection agent options can't be a function or a boolean'')), [])"
    using fe by (simp add: constructor_def s fg)
  have "opt_agent http_agent_options = Some (AgentObject [js ''keepAlive'' \<mapsto> JBool True]) \<and>
      not_nullish [js ''keepAlive'' \<mapsto> JBool True] (js ''keepAlive'')"
    by (simp add: http_agent_options_def not_nullish_def)
  then have he: "\<exists>m. fst (constructor node_super 7 http_agent_options) = Inl (ConfigurationError m)"
    using h by blast
  then have "snd (constructor node_super 7 http_agent_options) = []"
    using h by blast
  moreover have hg: "\<not> proxy_given http_agent_options"
    "\<not> function_or_boolean (opt_agent http_agent_options)"
    "(case opt_agent http_agent_options of
        Some (AgentObject obj) \<Rightarrow> \<not> isUndiciAgentOptions obj | _ \<Rightarrow> False)"
    by (simp_all add: proxy_given_def http_agent_options_def function_or_boolean_def
        isUndiciAgentOptions_def not_nullish_def)
  ultimately have 3: "constructor node_super 7 http_agent_options =
     (Inl (ConfigurationError (js ''Bad agent configuration for Undici agent'')), [])"
    using he by (simp add: constructor_def s hg)
  have "\<not> proxy_given plain_options" "opt_agent plain_options \<noteq> Some AgentFunction"
    "\<nexists>v. opt_agent plain_options = Some (AgentBoolean v)"
    "\<nexists>obj. opt_agent plain_options = Some (AgentObject obj) \<and>
            (not_nullish obj (js ''keepAlive'') \<or> not_nullish obj (js ''keepAliveMsecs'') \<or>
             not_nullish obj (js ''maxSockets'') \<or> not_nullish obj (js ''maxFreeSockets'') \<or>
             not_nullish obj (js ''scheduling'') \<or> not_nullish obj (js ''proxy''))"
    by (simp_all add: proxy_given_def plain_options_def not_nullish_def js_eq_iff)
  then have "\<not> (\<exists>m. fst (constructor node_super 7 plain_options) = Inl (ConfigurationError m))"
    using g by blast
  then have "\<exists>conn. fst (constructor node_super 7 plain_options) = Inr conn \<and>
      snd (constructor node_super 7 plain_options) = [pool conn] \<and>
      pool_url (pool conn) = url node_base"
    using g by blast
  then have "snd (constructor node_super 7 plain_options) = [pool node_conn] \<and>
      pool_url (pool node_conn) = url node_base"
    by (simp add: node_conn_built)
  then have 4: "constructor node_super 7 plain_options = (Inr node_conn, [pool node_conn]) \<and>
      pool_url (pool node_conn) = js ''http://localhost:9200/''"
    using node_conn_built by (simp add: prod_eq_iff node_base_def)
  show ?thesis
    using 1 2 3 4 by blast
qed

text \<open>
  C4 does not hold of the code. The emitter is created once, by the constructor, and every
  call without a controller of its own is governed by it. Two calls on the connection that
  the constructor has built, neither with a controller: the timer of the first elapses,
  its callback emits \<open>abort\<close> on the emitter of the connection, and that triggers the signal
  that governs the second call, which has armed no timer; the second call, rejected by the
  transport as aborted, throws \<open>RequestAbortedError\<close>.
\<close>

theorem C4_shared_emitter:
  "fst (constructor node_super 7 plain_options) = Inr node_conn \<and>
   kEmitter node_conn = EventEmitter 7 \<and>
   rp_signal (requestParams node_conn hurried) = EmitterSignal (kEmitter node_conn) \<and>
   rp_signal (requestParams node_conn bystander) = EmitterSignal (kEmitter node_conn) \<and>
   cancellations (trace (request node64 node_conn hurried timed_out_env)) =
     [SetTimedOut, EmitAbort (kEmitter node_conn)] \<and>
   list_ex (\<lambda>x. triggers x (rp_signal (requestParams node_conn bystander)))
     (trace (request node64 node_conn hurried timed_out_env)) \<and>
   timers_set (trace (request node64 node_conn bystander (rejecting aborted))) = [] \<and>
   outcome (request node64 node_conn bystander (rejecting aborted)) =
     Inl (RequestAbortedError (js ''Request aborted''))"
proof -
  have nc: "abortController hurried = None" "abortController bystander = None"
    by (simp_all add: hurried_def bystander_def search_def)
  have armed: "timer_armed node_conn hurried" and fires: "timer_fires timed_out_env"
    by (simp_all add: timer_armed_def hurried_def node_conn_def timed_out_env_def)
  have valid: "\<not> INVALID_PATH_REGEX (rp_path (requestParams node_conn hurried))"
    "\<not> INVALID_PATH_REGEX (rp_path (requestParams node_conn bystander))"
    by (simp_all add: requestParams_def hurried_def bystander_def search_def
        INVALID_PATH_REGEX_def js_def)
  have 1: "rp_signal (requestParams node_conn hurried) = EmitterSignal (kEmitter node_conn)"
    "rp_signal (requestParams node_conn bystander) = EmitterSignal (kEmitter node_conn)"
    by (simp_all add: requestParams_def nc)
  have 2: "cancellations (trace (request node64 node_conn hurried timed_out_env)) =
     [SetTimedOut, EmitAbort (kEmitter node_conn)]"
    by (simp add: cancellations_request timedout_request valid armed fires cancel_effect_def nc)
  have 3: "list_ex (\<lambda>x. triggers x (rp_signal (requestParams node_conn bystander)))
     (trace (request node64 node_conn hurried timed_out_env))"
    using nc armed fires valid(1) by (rule emitter_shared)
  have quiet: "req_timeout bystander = None"
    by (simp add: bystander_def search_def)
  have 4: "timers_set (trace (request node64 node_conn bystander (rejecting aborted))) = []"
    by (simp add: timers_set_request quiet)
  have rr: "reply (rejecting aborted) = Inl aborted"
    by (simp add: rejecting_def)
  have 5: "outcome (request node64 node_conn bystander (rejecting aborted)) =
     Inl (RequestAbortedError (js ''Request aborted''))"
  proof -
    have "classify (timer_armed node_conn bystander \<and> timer_fires (rejecting aborted)) aborted =
        RequestAbortedError (js ''Request aborted'')"
      by (simp add: classify_def aborted_def timer_armed_def quiet)
    then show ?thesis
      by (simp add: request_rejected [OF valid(2) rr])
  qed
  have 6: "kEmitter node_conn = EventEmitter 7"
    by (simp add: node_conn_def)
  show ?thesis
    using node_conn_built 1 2 3 4 5 6 by blast
qed

end
